theory Spec2Isabelle
  imports Complex_Main
begin

section \<open>The video service: data model\<close>

text \<open>
  The embedding follows \<^verbatim>\<open>services/videoService.js\<close> (class \<^verbatim>\<open>VideoService\<close>) and
  the \<^verbatim>\<open>/analyze\<close> handler of the video router. Promises are modelled by their
  outcome, the file system of the temp directory by the set of paths that exist,
  \<^verbatim>\<open>console.error\<close> by a list of logged lines, and a cleanup that was started
  without \<^verbatim>\<open>await\<close> by the path whose unlink is still in flight. What the external libraries
  (ytdl, ffmpeg, the OpenAI client, uuid) answer is a parameter of each function.
\<close>

type_synonym path = string

text \<open>A JavaScript \<^verbatim>\<open>Error\<close> object, identified by its message.\<close>

datatype js_error = Error string

fun message :: "js_error \<Rightarrow> string" where
  "message (Error m) = m"

text \<open>
  The outcome of awaiting a promise: fulfilled with a value, rejected with an error, or
  never settled (no handler ever calls \<^verbatim>\<open>resolve\<close> or \<^verbatim>\<open>reject\<close>).
\<close>

datatype 'a promise = Fulfilled 'a | Rejected js_error | Pending

record world =
  files :: "path set"
  console :: "string list"
  unlinking :: "path list"

definition console_error :: "world \<Rightarrow> string \<Rightarrow> world" where
  "console_error w line = w\<lparr>console := console w @ [line]\<rparr>"

text \<open>
  \<^verbatim>\<open>await p\<close> followed by the rest of the function body: the body runs on the value
  of a fulfilled promise, a rejection propagates, a pending promise blocks.
\<close>

definition await ::
  "'a promise \<times> world \<Rightarrow> ('a \<Rightarrow> world \<Rightarrow> 'b promise \<times> world) \<Rightarrow> 'b promise \<times> world" where
  "await p body =
     (case p of
        (Fulfilled v, w) \<Rightarrow> body v w
      | (Rejected e, w) \<Rightarrow> (Rejected e, w)
      | (Pending, w) \<Rightarrow> (Pending, w))"

text \<open>\<^verbatim>\<open>try { body } catch (error) { handler }\<close>.\<close>

definition try_catch ::
  "'a promise \<times> world \<Rightarrow> (js_error \<Rightarrow> world \<Rightarrow> 'a promise \<times> world) \<Rightarrow> 'a promise \<times> world" where
  "try_catch body handler =
     (case body of
        (Rejected e, w) \<Rightarrow> handler e w
      | (Fulfilled v, w) \<Rightarrow> (Fulfilled v, w)
      | (Pending, w) \<Rightarrow> (Pending, w))"

text \<open>A call of an external service that answers with a value or fails with an error.\<close>

definition call :: "js_error + 'a \<Rightarrow> world \<Rightarrow> 'a promise \<times> world" where
  "call answer w = (case answer of Inl e \<Rightarrow> (Rejected e, w) | Inr v \<Rightarrow> (Fulfilled v, w))"

subsection \<open>File operations of \<^verbatim>\<open>fs.promises\<close>\<close>

text \<open>
  \<^verbatim>\<open>fs.unlink\<close> rejects when the path does not exist and removes the file otherwise;
  \<^verbatim>\<open>fs.readFile\<close> rejects when the path does not exist.
\<close>

definition unlink :: "world \<Rightarrow> path \<Rightarrow> unit promise \<times> world" where
  "unlink w filePath =
     (if filePath \<in> files w
      then (Fulfilled (), w\<lparr>files := files w - {filePath}\<rparr>)
      else (Rejected (Error (''ENOENT: no such file or directory, unlink '' @ filePath)), w))"

definition readFile :: "world \<Rightarrow> path \<Rightarrow> unit promise \<times> world" where
  "readFile w filePath =
     (if filePath \<in> files w then (Fulfilled (), w)
      else (Rejected (Error (''ENOENT: no such file or directory, open '' @ filePath)), w))"

text \<open>
  \<^verbatim>\<open>cleanupFile(filePath)\<close>: the \<^verbatim>\<open>try\<close> block awaits \<^verbatim>\<open>fs.unlink\<close>, the
  \<^verbatim>\<open>catch\<close> block logs and falls through.
\<close>

definition cleanupFile :: "world \<Rightarrow> path \<Rightarrow> unit promise \<times> world" where
  "cleanupFile w filePath =
     try_catch
       (await (unlink w filePath) (\<lambda>u w1. (Fulfilled (), w1)))
       (\<lambda>error w1.
          (Fulfilled (), console_error w1 (''Failed to cleanup file '' @ filePath)))"

text \<open>
  \<^verbatim>\<open>this.cleanupFile(filePath)\<close> called without \<^verbatim>\<open>await\<close>: the unlink is started,
  the caller goes on at once, and the file is still on disk at that moment.
\<close>

definition start_cleanupFile :: "world \<Rightarrow> path \<Rightarrow> world" where
  "start_cleanupFile w filePath = w\<lparr>unlinking := unlinking w @ [filePath]\<rparr>"

text \<open>
  The cleanups in flight run to their end, in the order in which they were started; what
  their promises yield is dropped, as nothing awaits them.
\<close>

definition finish_cleanups :: "world \<Rightarrow> world" where
  "finish_cleanups w =
     fold (\<lambda>filePath w'. snd (cleanupFile w' filePath)) (unlinking w) (w\<lparr>unlinking := []\<rparr>)"

subsection \<open>Regular expressions\<close>

text \<open>
  The patterns of the service use literals, character classes, sequence, alternation,
  the optional group and \<open>*\<close>/\<open>+\<close> on a character class. \<open>run r s\<close> lists what is left
  of \<open>s\<close> after each way \<open>r\<close> can match a prefix of it, in the order in which a
  backtracking matcher tries them (left alternative first, greedy repetition).
\<close>

fun starts_with :: "string \<Rightarrow> string \<Rightarrow> bool" where
  "starts_with [] s = True"
| "starts_with (c # p) [] = False"
| "starts_with (c # p) (d # s) = (c = d \<and> starts_with p s)"

datatype rx =
    Lit string
  | Ch "char \<Rightarrow> bool"
  | Seq rx rx
  | Alt rx rx
  | Opt rx
  | StarCh "char \<Rightarrow> bool"
  | PlusCh "char \<Rightarrow> bool"

fun star_ch :: "(char \<Rightarrow> bool) \<Rightarrow> string \<Rightarrow> string list" where
  "star_ch P [] = [[]]"
| "star_ch P (c # t) = (if P c then star_ch P t else []) @ [c # t]"

fun run :: "rx \<Rightarrow> string \<Rightarrow> string list" where
  "run (Lit p) s = (if starts_with p s then [drop (length p) s] else [])"
| "run (Ch P) s = (case s of [] \<Rightarrow> [] | c # t \<Rightarrow> if P c then [t] else [])"
| "run (Seq a b) s = concat (map (run b) (run a s))"
| "run (Alt a b) s = run a s @ run b s"
| "run (Opt a) s = run a s @ [s]"
| "run (StarCh P) s = star_ch P s"
| "run (PlusCh P) s = (case s of [] \<Rightarrow> [] | c # t \<Rightarrow> if P c then star_ch P t else [])"

text \<open>\<^verbatim>\<open>regex.test(s)\<close> for a pattern that starts with \<^verbatim>\<open>^\<close>.\<close>

definition test :: "rx \<Rightarrow> string \<Rightarrow> bool" where
  "test r s = (run r s \<noteq> [])"

text \<open>
  The text captured by one group of a pattern \<open>pre(grp)suf\<close> matched at the start of
  \<open>s\<close>: the first way, in backtracking order, in which all three parts match.
\<close>

definition match_group :: "rx \<Rightarrow> rx \<Rightarrow> rx \<Rightarrow> string \<Rightarrow> string option" where
  "match_group pre grp suf s =
     (case [take (length t - length r) t. t \<leftarrow> run pre s, r \<leftarrow> run grp t, run suf r \<noteq> []] of
        [] \<Rightarrow> None
      | captured # _ \<Rightarrow> Some captured)"

text \<open>\<^verbatim>\<open>s.match(regex)\<close> for a pattern without \<^verbatim>\<open>^\<close>: the leftmost start that matches.\<close>

fun search_group :: "rx \<Rightarrow> rx \<Rightarrow> rx \<Rightarrow> string \<Rightarrow> string option" where
  "search_group pre grp suf [] = match_group pre grp suf []"
| "search_group pre grp suf (c # t) =
     (case match_group pre grp suf (c # t) of
        Some captured \<Rightarrow> Some captured
      | None \<Rightarrow> search_group pre grp suf t)"

definition code_of :: "char \<Rightarrow> nat" where
  "code_of c = of_char c"

definition between :: "char \<Rightarrow> char \<Rightarrow> char \<Rightarrow> bool" where
  "between lo hi c = (code_of lo \<le> code_of c \<and> code_of c \<le> code_of hi)"

text \<open>\<^verbatim>\<open>.\<close> matches every character but a line terminator.\<close>

definition dot :: "char \<Rightarrow> bool" where
  "dot c = (c \<noteq> CHR 0x0A \<and> c \<noteq> CHR 0x0D)"

text \<open>\<^verbatim>\<open>\w\<close>\<close>

definition word_char :: "char \<Rightarrow> bool" where
  "word_char c =
     (between CHR ''a'' CHR ''z'' c \<or> between CHR ''A'' CHR ''Z'' c
      \<or> between CHR ''0'' CHR ''9'' c \<or> c = CHR ''_'')"

subsection \<open>Platform and video id\<close>

text \<open>\<^verbatim>\<open>(https?:\/\/)?(www\.)?\<close>, the common head of both platform patterns.\<close>

definition scheme_www :: "rx \<Rightarrow> rx" where
  "scheme_www r =
     Seq (Opt (Seq (Lit ''http'') (Seq (Opt (Lit ''s'')) (Lit ''://''))))
         (Seq (Opt (Lit ''www.'')) r)"

text \<open>\<^verbatim>\<open>/^(https?:\/\/)?(www\.)?(youtube\.com|youtu\.be)\//\<close>\<close>

definition youtubeRegex :: rx where
  "youtubeRegex = scheme_www (Seq (Alt (Lit ''youtube.com'') (Lit ''youtu.be'')) (Lit ''/''))"

definition isYouTubeUrl :: "string \<Rightarrow> bool" where
  "isYouTubeUrl url = test youtubeRegex url"

text \<open>\<^verbatim>\<open>/^(https?:\/\/)?(www\.)?instagram\.com\//\<close>\<close>

definition instagramRegex :: rx where
  "instagramRegex = scheme_www (Lit ''instagram.com/'')"

definition isInstagramUrl :: "string \<Rightarrow> bool" where
  "isInstagramUrl url = test instagramRegex url"

text \<open>
  The pattern of \<^verbatim>\<open>extractVideoId\<close> for YouTube,
  \<^verbatim>\<open>/^.(youtu.be\/|v\/|u\/\w\/|embed\/|watch\?v=|&v=)([^#&?]).*/\<close>,
  in its three parts: what precedes group 2, group 2, and what follows it. The dot of
  \<^verbatim>\<open>youtu.be\<close> is not escaped in this pattern.
\<close>

definition youtubeId_pre :: rx where
  "youtubeId_pre =
     Seq (Ch dot)
       (Alt (Seq (Lit ''youtu'') (Seq (Ch dot) (Lit ''be/'')))
       (Alt (Lit ''v/'')
       (Alt (Seq (Lit ''u/'') (Seq (Ch word_char) (Lit ''/'')))
       (Alt (Lit ''embed/'')
       (Alt (Lit ''watch?v='')
            (Lit ''&v=''))))))"

definition youtubeId_group :: rx where
  "youtubeId_group = Ch (\<lambda>c. c \<notin> set ''#&?'')"

definition youtubeId_post :: rx where
  "youtubeId_post = StarCh dot"

text \<open>\<^verbatim>\<open>/\/p\/([A-Za-z0-9_-]+)/\<close>\<close>

definition instagramId_pre :: rx where
  "instagramId_pre = Lit ''/p/''"

definition instagramId_group :: rx where
  "instagramId_group =
     PlusCh (\<lambda>c. between CHR ''A'' CHR ''Z'' c \<or> between CHR ''a'' CHR ''z'' c
                  \<or> between CHR ''0'' CHR ''9'' c \<or> c = CHR ''_'' \<or> c = CHR ''-'')"

text \<open>
  \<^verbatim>\<open>extractVideoId(videoUrl)\<close>. \<open>uuid\<close> is the value that \<^verbatim>\<open>uuidv4()\<close> returns
  when this call evaluates it: a fresh random token, different in every call.
\<close>

definition extractVideoId :: "string \<Rightarrow> string \<Rightarrow> string" where
  "extractVideoId videoUrl uuid =
     (if isYouTubeUrl videoUrl then
        (case match_group youtubeId_pre youtubeId_group youtubeId_post videoUrl of
           None \<Rightarrow> uuid
         | Some m2 \<Rightarrow> if length m2 = 11 then m2 else uuid)
      else if isInstagramUrl videoUrl then
        (case search_group instagramId_pre instagramId_group (Lit []) videoUrl of
           None \<Rightarrow> uuid
         | Some m1 \<Rightarrow> m1)
      else uuid)"

text \<open>
  The platform of a URL, as every dispatch of the service decides it: the YouTube test
  first, then the Instagram test.
\<close>

datatype platform = YouTubeLike | InstagramLike | Unknown

definition platform_of :: "string \<Rightarrow> platform" where
  "platform_of videoUrl =
     (if isYouTubeUrl videoUrl then YouTubeLike
      else if isInstagramUrl videoUrl then InstagramLike
      else Unknown)"

subsection \<open>Audio extraction\<close>

text \<open>\<^verbatim>\<open>this.tempDir\<close> and \<^verbatim>\<open>path.join\<close> of a directory and a file name.\<close>

definition tempDir :: path where
  "tempDir = ''temp''"

definition path_join :: "path \<Rightarrow> string \<Rightarrow> path" where
  "path_join dir name = dir @ ''/'' @ name"

text \<open>
  How the ffmpeg transcode of \<^verbatim>\<open>extractYouTubeAudio\<close> ends: with the \<^verbatim>\<open>end\<close> event
  and the output file written, or with the \<^verbatim>\<open>error\<close> event (also raised when the
  download stream fails), in which case the flag says whether ffmpeg had already
  created the output file.
\<close>

datatype transcode_outcome = TranscodeEnd | TranscodeError js_error bool

definition extractYouTubeAudio ::
  "world \<Rightarrow> transcode_outcome \<Rightarrow> string \<Rightarrow> path \<Rightarrow> path promise \<times> world" where
  "extractYouTubeAudio w transcode videoUrl audioPath =
     (case transcode of
        TranscodeEnd \<Rightarrow> (Fulfilled audioPath, w\<lparr>files := insert audioPath (files w)\<rparr>)
      | TranscodeError err partial \<Rightarrow>
          (Rejected err,
           console_error (if partial then w\<lparr>files := insert audioPath (files w)\<rparr> else w)
             (''FFmpeg error: '' @ message err)))"

definition extractInstagramAudio :: "world \<Rightarrow> string \<Rightarrow> path \<Rightarrow> path promise \<times> world" where
  "extractInstagramAudio w videoUrl audioPath =
     try_catch
       (Rejected (Error ''Instagram video processing requires additional API setup''), w)
       (\<lambda>error w1. (Rejected (Error ''Instagram video extraction not yet implemented''), w1))"

text \<open>
  \<^verbatim>\<open>extractAudio(videoUrl)\<close>. \<open>uuid1\<close> is the token of the \<^verbatim>\<open>uuidv4()\<close> call inside
  \<^verbatim>\<open>extractVideoId\<close>, \<open>uuid2\<close> the one of the call that names the audio file.
\<close>

definition extractAudio ::
  "world \<Rightarrow> string \<Rightarrow> string \<Rightarrow> transcode_outcome \<Rightarrow> string \<Rightarrow> path promise \<times> world" where
  "extractAudio w uuid1 uuid2 transcode videoUrl =
     try_catch
       (let videoId = extractVideoId videoUrl uuid1;
            audioPath = path_join tempDir (videoId @ ''-'' @ uuid2 @ ''.wav'')
        in if isYouTubeUrl videoUrl then extractYouTubeAudio w transcode videoUrl audioPath
           else if isInstagramUrl videoUrl then extractInstagramAudio w videoUrl audioPath
           else (Rejected (Error ''Unsupported video platform''), w))
       (\<lambda>error w1.
          (Rejected (Error ''Failed to extract audio from video''),
           console_error w1 (''Audio extraction error: '' @ message error)))"

subsection \<open>Transcription\<close>

record segment =
  seg_start :: real
  seg_end :: real
  seg_text :: string

text \<open>
  The answer of the speech-to-text service. \<^verbatim>\<open>segments\<close> and \<^verbatim>\<open>language\<close> may be
  missing from the response (\<open>None\<close>).
\<close>

record whisper_response =
  r_text :: string
  r_segments :: "segment list option"
  r_language :: "string option"

record transcript =
  t_text :: string
  t_segments :: "segment list"
  t_duration :: real
  t_language :: string

text \<open>
  \<^verbatim>\<open>calculateDuration(segments)\<close>: 0 for a missing or empty array, otherwise
  \<^verbatim>\<open>lastSegment.end || 0\<close>, where \<^verbatim>\<open>||\<close> replaces a falsy number (0) by 0.
\<close>

definition calculateDuration :: "segment list option \<Rightarrow> real" where
  "calculateDuration segments =
     (case segments of
        None \<Rightarrow> 0
      | Some segs \<Rightarrow>
          if length segs = 0 then 0
          else (let lastSegment = segs ! (length segs - 1)
                in if seg_end lastSegment = 0 then 0 else seg_end lastSegment))"

text \<open>
  \<^verbatim>\<open>transcribeAudio(audioPath)\<close>. \<open>whisper\<close> is what
  \<^verbatim>\<open>openai.audio.transcriptions.create\<close> answers once the file has been read.
\<close>

definition transcribeAudio ::
  "world \<Rightarrow> js_error + whisper_response \<Rightarrow> path \<Rightarrow> transcript promise \<times> world" where
  "transcribeAudio w whisper audioPath =
     try_catch
       (await (readFile w audioPath) (\<lambda>audioFile w1.
        await (call whisper w1) (\<lambda>response w2.
        await (cleanupFile w2 audioPath) (\<lambda>u w3.
          (Fulfilled
             \<lparr>t_text = r_text response,
              t_segments = (case r_segments response of None \<Rightarrow> [] | Some segs \<Rightarrow> segs),
              t_duration = calculateDuration (r_segments response),
              t_language = (case r_language response of
                              None \<Rightarrow> ''en''
                            | Some l \<Rightarrow> if l = [] then ''en'' else l)\<rparr>,
           w3)))))
       (\<lambda>error w1.
          await (cleanupFile (console_error w1 (''Transcription error: '' @ message error))
                   audioPath) (\<lambda>u w2.
            (Rejected (Error ''Failed to transcribe audio''), w2)))"

subsection \<open>Frame extraction\<close>

text \<open>The decimal digits of a number, as a template literal prints it.\<close>

function string_of_nat :: "nat \<Rightarrow> string" where
  "string_of_nat n =
     (if n < 10 then [''0123456789'' ! n]
      else string_of_nat (n div 10) @ [''0123456789'' ! (n mod 10)])"
  by pat_completeness auto
termination
  by (relation "measure id") auto

declare string_of_nat.simps [simp del]

text \<open>
  How the download of the whole video ends: the write stream raises \<^verbatim>\<open>finish\<close>, or
  the download fails. The source registers no handler for a failed download, so in that
  case the promise of \<^verbatim>\<open>extractFrames\<close> is never settled.
\<close>

datatype download_outcome = DownloadFinish | DownloadFails

text \<open>
  How \<^verbatim>\<open>ffmpeg(...).screenshots(...)\<close> ends: with the \<^verbatim>\<open>end\<close> event or with the
  \<^verbatim>\<open>error\<close> event. In both cases the number says how many screenshots ffmpeg has
  written by then. ffmpeg can end without an error and yet have written fewer screenshots
  than were asked for (a time mark that lies behind the last frame of the video yields no
  file), so the number that comes with \<^verbatim>\<open>end\<close> is not bound to the count.
\<close>

datatype screenshots_outcome = ScreenshotsEnd nat | ScreenshotsError js_error nat

text \<open>
  The files that fluent-ffmpeg writes for the first \<open>k\<close> screenshots into \<open>folder\<close>
  under a file name pattern \<open>pre%ipost\<close>: \<^verbatim>\<open>%i\<close> is replaced by the index of the
  screenshot, counted from 1.
\<close>

definition screenshot_files :: "path \<Rightarrow> string \<Rightarrow> string \<Rightarrow> nat \<Rightarrow> path set" where
  "screenshot_files folder pre post k =
     set (map (\<lambda>i. path_join folder (pre @ string_of_nat i @ post)) [1..<Suc k])"

text \<open>
  \<^verbatim>\<open>extractFrames(videoUrl, frameCount = 10)\<close>. \<^verbatim>\<open>createWriteStream\<close> creates the
  temporary video file. When the download has finished, the \<^verbatim>\<open>finish\<close> callback starts
  ffmpeg and then fills the list of frame paths from the counter alone; the disk is not
  looked at. The promise is settled by the \<^verbatim>\<open>end\<close> or \<^verbatim>\<open>error\<close> handler of ffmpeg;
  both start the cleanup of the temporary video without awaiting it, so that file is
  still on disk when the promise settles. With a count of 0, \<^verbatim>\<open>screenshots\<close> throws
  inside the callback, outside the executor of the promise, which is then never settled.
\<close>

definition extractFrames ::
  "world \<Rightarrow> string \<Rightarrow> download_outcome \<Rightarrow> screenshots_outcome \<Rightarrow> string \<Rightarrow> nat
     \<Rightarrow> path list promise \<times> world" where
  "extractFrames w uuid download screenshots videoUrl frameCount =
     (let videoId = extractVideoId videoUrl uuid;
          tempVideoPath = path_join tempDir (videoId @ ''-temp.mp4'');
          w1 = w\<lparr>files := insert tempVideoPath (files w)\<rparr>;
          frames = map (\<lambda>i. path_join tempDir (videoId @ ''-frame-'' @ string_of_nat i @ ''.png''))
                     [1..<Suc frameCount]
      in case download of
           DownloadFails \<Rightarrow> (Pending, w1)
         | DownloadFinish \<Rightarrow>
             if frameCount = 0 then (Pending, w1)
             else
               (case screenshots of
                  ScreenshotsEnd k \<Rightarrow>
                    (let w2 = w1\<lparr>files := files w1 \<union>
                                screenshot_files tempDir (videoId @ ''-frame-'') ''.png''
                                  (min k frameCount)\<rparr>
                     in (Fulfilled frames, start_cleanupFile w2 tempVideoPath))
                | ScreenshotsError err k \<Rightarrow>
                    (let w2 = w1\<lparr>files := files w1 \<union>
                                screenshot_files tempDir (videoId @ ''-frame-'') ''.png''
                                  (min k frameCount)\<rparr>
                     in (Rejected err, start_cleanupFile w2 tempVideoPath))))"

subsection \<open>Frame analysis\<close>

text \<open>
  What the vision call for one frame yields: \<^verbatim>\<open>response.choices[0].message.content\<close>,
  which is a text or \<^verbatim>\<open>null\<close> (\<open>None\<close>), and the time at which the note is pushed.
  An error stands for a rejected call or a response without a first choice. A note keeps
  the content as it came, so its \<^verbatim>\<open>analysis\<close> can be \<^verbatim>\<open>null\<close> as well.
\<close>

record vision_response =
  content :: "string option"
  pushed_at :: string

record frame_analysis =
  frame :: path
  analysis :: "string option"
  timestamp :: string

record important_visual =
  description :: string
  iv_timestamp :: string

text \<open>
  The object that \<^verbatim>\<open>analyzeFrames\<close> and \<^verbatim>\<open>analyzeVisuals\<close> return. The result of
  \<^verbatim>\<open>analyzeFrames\<close> has no \<^verbatim>\<open>sceneChanges\<close>, the fallback of \<^verbatim>\<open>analyzeVisuals\<close> has
  no \<^verbatim>\<open>frameAnalyses\<close>.
\<close>

record visual_analysis =
  frameAnalyses :: "frame_analysis list option"
  keyVisualElements :: "string list"
  textInImages :: "string list"
  sceneChanges :: "string list option"
  importantVisuals :: "important_visual list"

text \<open>\<^verbatim>\<open>toLowerCase\<close> on the letters A to Z; every other character is kept.\<close>

definition toLowerCase :: "string \<Rightarrow> string" where
  "toLowerCase s =
     map (\<lambda>c. case map_of (zip ''ABCDEFGHIJKLMNOPQRSTUVWXYZ'' ''abcdefghijklmnopqrstuvwxyz'') c of
                Some l \<Rightarrow> l
              | None \<Rightarrow> c) s"

fun str_includes :: "string \<Rightarrow> string \<Rightarrow> bool" where
  "str_includes [] needle = starts_with needle []"
| "str_includes (c # t) needle = (starts_with needle (c # t) \<or> str_includes t needle)"

text \<open>\<^verbatim>\<open>[...new Set(elements)]\<close>: the first occurrence of every element, in order.\<close>

definition set_order :: "'a list \<Rightarrow> 'a list" where
  "set_order xs = fold (\<lambda>x acc. if x \<in> set acc then acc else acc @ [x]) xs []"

text \<open>
  The \<^verbatim>\<open>TypeError\<close> that a method call on \<^verbatim>\<open>null\<close> raises (the message names the
  method, here without the quotes around it).
\<close>

definition null_error :: "string \<Rightarrow> js_error" where
  "null_error method = Error (''TypeError: Cannot read properties of null (reading '' @ method @ '')'')"

text \<open>
  \<^verbatim>\<open>extractKeyVisualElements(analyses)\<close>: the \<^verbatim>\<open>forEach\<close> pushes the tags of every
  note onto \<^verbatim>\<open>elements\<close>; \<^verbatim>\<open>analysis.analysis.toLowerCase()\<close> throws on a note
  whose analysis is \<^verbatim>\<open>null\<close>.
\<close>

fun keyVisualElements_forEach :: "frame_analysis list \<Rightarrow> string list \<Rightarrow> js_error + string list" where
  "keyVisualElements_forEach [] elements = Inr elements"
| "keyVisualElements_forEach (a # rest) elements =
     (case analysis a of
        None \<Rightarrow> Inl (null_error ''toLowerCase'')
      | Some s \<Rightarrow>
          (let text = toLowerCase s
           in keyVisualElements_forEach rest
                (elements
                 @ (if str_includes text ''chart'' \<or> str_includes text ''graph''
                    then [''Charts/Graphs detected''] else [])
                 @ (if str_includes text ''text'' \<or> str_includes text ''title''
                    then [''Important text elements''] else [])
                 @ (if str_includes text ''diagram'' \<or> str_includes text ''flowchart''
                    then [''Diagrams/Flowcharts''] else []))))"

definition extractKeyVisualElements :: "frame_analysis list \<Rightarrow> js_error + string list" where
  "extractKeyVisualElements analyses =
     (case keyVisualElements_forEach analyses [] of
        Inl e \<Rightarrow> Inl e
      | Inr elements \<Rightarrow> Inr (set_order elements))"

text \<open>
  All matches of \<^verbatim>\<open>/"([^"]+)"/g\<close>, without their quotes: a quote, a longest non-empty
  run of other characters, and a quote; the search goes on after the closing quote.
\<close>

function quoted :: "string \<Rightarrow> string list" where
  "quoted [] = []"
| "quoted (c # t) =
     (if c = CHR 0x22 \<and> takeWhile (\<lambda>d. d \<noteq> CHR 0x22) t \<noteq> []
         \<and> dropWhile (\<lambda>d. d \<noteq> CHR 0x22) t \<noteq> []
      then takeWhile (\<lambda>d. d \<noteq> CHR 0x22) t # quoted (tl (dropWhile (\<lambda>d. d \<noteq> CHR 0x22) t))
      else quoted t)"
  by pat_completeness auto
termination
proof (relation "measure length")
  fix c :: char and t :: string
  have "length (tl (dropWhile (\<lambda>d. d \<noteq> CHR 0x22) t)) \<le> length t"
    using length_dropWhile_le [of "\<lambda>d. d \<noteq> CHR 0x22" t] by simp
  then show "(tl (dropWhile (\<lambda>d. d \<noteq> CHR 0x22) t), c # t) \<in> measure length"
    by simp
qed simp_all

text \<open>
  \<^verbatim>\<open>extractTextFromAnalyses(analyses)\<close>: the \<^verbatim>\<open>forEach\<close> pushes the quoted texts of
  every note; \<^verbatim>\<open>analysis.analysis.match(...)\<close> throws on \<^verbatim>\<open>null\<close>.
\<close>

fun textFromAnalyses_forEach :: "frame_analysis list \<Rightarrow> string list \<Rightarrow> js_error + string list" where
  "textFromAnalyses_forEach [] textElements = Inr textElements"
| "textFromAnalyses_forEach (a # rest) textElements =
     (case analysis a of
        None \<Rightarrow> Inl (null_error ''match'')
      | Some s \<Rightarrow> textFromAnalyses_forEach rest (textElements @ quoted s))"

definition extractTextFromAnalyses :: "frame_analysis list \<Rightarrow> js_error + string list" where
  "extractTextFromAnalyses analyses = textFromAnalyses_forEach analyses []"

text \<open>
  \<^verbatim>\<open>identifyImportantVisuals(analyses)\<close>: the notes that pass the \<^verbatim>\<open>filter\<close>, mapped
  to their description and time; the callback of the filter throws on \<^verbatim>\<open>null\<close>.
\<close>

fun identifyImportantVisuals :: "frame_analysis list \<Rightarrow> js_error + important_visual list" where
  "identifyImportantVisuals [] = Inr []"
| "identifyImportantVisuals (a # rest) =
     (case analysis a of
        None \<Rightarrow> Inl (null_error ''toLowerCase'')
      | Some s \<Rightarrow>
          (case identifyImportantVisuals rest of
             Inl e \<Rightarrow> Inl e
           | Inr visuals \<Rightarrow>
               Inr ((if str_includes (toLowerCase s) ''important''
                        \<or> str_includes (toLowerCase s) ''key''
                        \<or> str_includes (toLowerCase s) ''significant''
                     then [\<lparr>description = s, iv_timestamp = timestamp a\<rparr>] else [])
                    @ visuals)))"

text \<open>
  One pass of the loop of \<^verbatim>\<open>analyzeFrames\<close> over the frame at position \<open>i\<close>: the
  inner \<^verbatim>\<open>try\<close> reads the file, calls the vision service and pushes a note; the inner
  \<^verbatim>\<open>catch\<close> logs and continues with the notes collected so far.
\<close>

definition analyzeFrame ::
  "(nat \<Rightarrow> js_error + vision_response) \<Rightarrow> nat \<Rightarrow> path \<Rightarrow> frame_analysis list \<Rightarrow> world
     \<Rightarrow> frame_analysis list promise \<times> world" where
  "analyzeFrame vision i framePath analyses w =
     try_catch
       (await (readFile w framePath) (\<lambda>frameBuffer w1.
        await (call (vision i) w1) (\<lambda>response w2.
          (Fulfilled (analyses @ [\<lparr>frame = framePath, analysis = content response,
                                   timestamp = pushed_at response\<rparr>]), w2))))
       (\<lambda>frameError w1.
          (Fulfilled analyses,
           console_error w1 (''Frame analysis error for '' @ framePath @ '': ''
                             @ message frameError)))"

fun analyzeFrames_loop ::
  "(nat \<Rightarrow> js_error + vision_response) \<Rightarrow> nat \<Rightarrow> path list \<Rightarrow> frame_analysis list \<Rightarrow> world
     \<Rightarrow> frame_analysis list promise \<times> world" where
  "analyzeFrames_loop vision i [] analyses w = (Fulfilled analyses, w)"
| "analyzeFrames_loop vision i (framePath # rest) analyses w =
     await (analyzeFrame vision i framePath analyses w)
       (\<lambda>analyses' w'. analyzeFrames_loop vision (Suc i) rest analyses' w')"

text \<open>
  \<^verbatim>\<open>analyzeFrames(framePaths)\<close>; \<open>vision i\<close> is the answer for the frame at position
  \<open>i\<close>. The three helpers run after the loop, inside the outer \<^verbatim>\<open>try\<close>: when one of them
  throws, the outer \<^verbatim>\<open>catch\<close> returns the empty result and the notes are lost.
\<close>

definition analyzeFrames ::
  "world \<Rightarrow> (nat \<Rightarrow> js_error + vision_response) \<Rightarrow> path list
     \<Rightarrow> visual_analysis promise \<times> world" where
  "analyzeFrames w vision framePaths =
     try_catch
       (await (analyzeFrames_loop vision 0 framePaths [] w) (\<lambda>analyses w1.
        await (call (extractKeyVisualElements analyses) w1) (\<lambda>elements w2.
        await (call (extractTextFromAnalyses analyses) w2) (\<lambda>textElements w3.
        await (call (identifyImportantVisuals analyses) w3) (\<lambda>visuals w4.
          (Fulfilled
             \<lparr>frameAnalyses = Some analyses,
              keyVisualElements = elements,
              textInImages = textElements,
              sceneChanges = None,
              importantVisuals = visuals\<rparr>, w4))))))
       (\<lambda>error w1.
          (Fulfilled
             \<lparr>frameAnalyses = Some [], keyVisualElements = [], textInImages = [],
              sceneChanges = None, importantVisuals = []\<rparr>,
           console_error w1 (''Frame analysis error: '' @ message error)))"

text \<open>
  The notes that the specification of the visual analyzer asks for, to be compared with
  what \<^verbatim>\<open>analyzeFrames\<close> returns: one note for every frame that could be read and whose
  vision call answered, in the order of the frames, and none for a frame whose analysis
  failed. \<open>F\<close> is the set of files on disk, \<open>i\<close> the position of the first frame of the list.
\<close>

definition note_for ::
  "path set \<Rightarrow> (nat \<Rightarrow> js_error + vision_response) \<Rightarrow> nat \<times> path \<Rightarrow> frame_analysis list" where
  "note_for F vision jp =
     (case vision (fst jp) of
        Inr r \<Rightarrow> if snd jp \<in> F
                 then [\<lparr>frame = snd jp, analysis = content r, timestamp = pushed_at r\<rparr>]
                 else []
      | Inl e \<Rightarrow> [])"

definition expected_notes ::
  "path set \<Rightarrow> (nat \<Rightarrow> js_error + vision_response) \<Rightarrow> nat \<Rightarrow> path list
     \<Rightarrow> frame_analysis list" where
  "expected_notes F vision i framePaths = concat (map (note_for F vision) (enumerate i framePaths))"

text \<open>The cleanup loop of \<^verbatim>\<open>analyzeVisuals\<close>.\<close>

fun cleanupFrames :: "path list \<Rightarrow> world \<Rightarrow> unit promise \<times> world" where
  "cleanupFrames [] w = (Fulfilled (), w)"
| "cleanupFrames (frame' # rest) w =
     await (cleanupFile w frame') (\<lambda>u w1. cleanupFrames rest w1)"

text \<open>
  \<^verbatim>\<open>analyzeVisuals(videoUrl)\<close>: extract the frames (ten, the default count), analyse
  them all, then delete them all; any error yields the empty fallback object. The cleanup
  of the temporary video that \<^verbatim>\<open>extractFrames\<close> started is awaited by no one and
  finishes on its own while this function goes on; here it finishes as soon as the promise
  of \<^verbatim>\<open>extractFrames\<close> has settled.
\<close>

definition analyzeVisuals ::
  "world \<Rightarrow> string \<Rightarrow> download_outcome \<Rightarrow> screenshots_outcome
     \<Rightarrow> (nat \<Rightarrow> js_error + vision_response) \<Rightarrow> string \<Rightarrow> visual_analysis promise \<times> world" where
  "analyzeVisuals w uuid download screenshots vision videoUrl =
     try_catch
       (await (extractFrames w uuid download screenshots videoUrl 10) (\<lambda>frames w1.
        await (analyzeFrames (finish_cleanups w1) vision frames) (\<lambda>visualAnalysis w2.
        await (cleanupFrames frames w2) (\<lambda>u w3.
          (Fulfilled visualAnalysis, w3)))))
       (\<lambda>error w1.
          (Fulfilled
             \<lparr>frameAnalyses = None, keyVisualElements = [], textInImages = [],
              sceneChanges = Some [], importantVisuals = []\<rparr>,
           console_error (finish_cleanups w1) (''Visual analysis error: '' @ message error)))"

subsection \<open>The request handler\<close>

record combined_content =
  cc_transcript :: transcript
  cc_visualNotes :: visual_analysis
  cc_url :: string

datatype generator =
  GeneratePresentation | GenerateKeyPoints | GenerateDescriptive
  | GenerateMindmapData | GenerateShortNotes

text \<open>The \<^verbatim>\<open>switch (format)\<close> of the handler.\<close>

definition select_generator :: "string \<Rightarrow> generator" where
  "select_generator format =
     (if format = ''presentation'' then GeneratePresentation
      else if format = ''keypoints'' then GenerateKeyPoints
      else if format = ''descriptive'' then GenerateDescriptive
      else if format = ''mindmap'' then GenerateMindmapData
      else if format = ''shortnotes'' then GenerateShortNotes
      else GenerateKeyPoints)"

text \<open>
  Everything outside the service that one request meets: the tokens of the three
  \<^verbatim>\<open>uuidv4()\<close> calls, how ffmpeg and the download end, what the speech-to-text and
  vision services answer, what the selected generator of the AI or presentation service
  answers, and the time of the response.
\<close>

record env =
  uuid_audio_id :: string
  uuid_audio_file :: string
  uuid_frames_id :: string
  env_transcode :: transcode_outcome
  env_whisper :: "js_error + whisper_response"
  env_download :: download_outcome
  env_screenshots :: screenshots_outcome
  env_vision :: "nat \<Rightarrow> js_error + vision_response"
  env_generate :: "generator \<Rightarrow> combined_content \<Rightarrow> js_error + string"
  env_now :: string

record metadata =
  m_url :: string
  m_format :: string
  m_duration :: real
  m_processedAt :: string

text \<open>
  The two responses of the handler: \<^verbatim>\<open>res.json\<close> with \<^verbatim>\<open>success: true\<close>, the data
  and the metadata, or status 500 with \<^verbatim>\<open>success: false\<close>, the error and the message.
\<close>

datatype response = Json200 string metadata | Json500 string string

text \<open>\<^verbatim>\<open>router.post('/analyze', ...)\<close>, for a request body that passed validation.\<close>

definition post_analyze :: "env \<Rightarrow> world \<Rightarrow> string \<Rightarrow> string \<Rightarrow> response promise \<times> world" where
  "post_analyze e w url format =
     try_catch
       (await (extractAudio w (uuid_audio_id e) (uuid_audio_file e) (env_transcode e) url)
          (\<lambda>audioPath w1.
        await (transcribeAudio w1 (env_whisper e) audioPath) (\<lambda>transcript w2.
        await (analyzeVisuals w2 (uuid_frames_id e) (env_download e) (env_screenshots e) (env_vision e) url)
          (\<lambda>visualAnalysis w3.
        (let combinedContent = \<lparr>cc_transcript = transcript, cc_visualNotes = visualAnalysis,
                                 cc_url = url\<rparr>
         in await (call (env_generate e (select_generator format) combinedContent) w3) (\<lambda>result w4.
              (Fulfilled (Json200 result
                 \<lparr>m_url = url, m_format = format, m_duration = t_duration transcript,
                  m_processedAt = env_now e\<rparr>), w4)))))))
       (\<lambda>error w1.
          (Fulfilled (Json500 ''Failed to analyze video'' (message error)),
           console_error w1 (''Video analysis error: '' @ message error)))"

subsection \<open>A sample request\<close>

text \<open>
  The request and the surroundings used by the concrete runs below: a YouTube URL with an
  11-character video token, an empty temp directory, and services that all answer.
\<close>

abbreviation example_url :: string where
  "example_url \<equiv> ''https://www.youtube.com/watch?v=dQw4w9WgXcQ''"

abbreviation empty_world :: world where
  "empty_world \<equiv> \<lparr>files = {}, console = [], unlinking = []\<rparr>"

abbreviation example_vision :: "nat \<Rightarrow> js_error + vision_response" where
  "example_vision \<equiv> (\<lambda>i. Inr \<lparr>content = Some ''a chart'', pushed_at = ''t''\<rparr>)"

abbreviation example_env :: "transcode_outcome \<Rightarrow> screenshots_outcome \<Rightarrow> env" where
  "example_env tc sh \<equiv>
     \<lparr>uuid_audio_id = ''u1'', uuid_audio_file = ''u2'', uuid_frames_id = ''u3'',
      env_transcode = tc,
      env_whisper = Inr \<lparr>r_text = ''hello'', r_segments = None, r_language = None\<rparr>,
      env_download = DownloadFinish,
      env_screenshots = sh,
      env_vision = example_vision,
      env_generate = (\<lambda>g c. Inr ''summary''),
      env_now = ''now''\<rparr>"

section \<open>Promises and cleanup\<close>

lemma await_simps [simp]:
  "await (Fulfilled v, w) body = body v w"
  "await (Rejected e, w) body = (Rejected e, w)"
  "await (Pending, w) body = (Pending, w)"
  by (simp_all add: await_def)

lemma try_catch_simps [simp]:
  "try_catch (Fulfilled v, w) handler = (Fulfilled v, w)"
  "try_catch (Rejected e, w) handler = handler e w"
  "try_catch (Pending, w) handler = (Pending, w)"
  by (simp_all add: try_catch_def)

lemma call_simps [simp]:
  "call (Inl e) w = (Rejected e, w)"
  "call (Inr v) w = (Fulfilled v, w)"
  by (simp_all add: call_def)

lemma files_console_error [simp]: "files (console_error w l) = files w"
  by (simp add: console_error_def)

lemma cleanupFile_eq:
  "cleanupFile w p =
     (if p \<in> files w then (Fulfilled (), w\<lparr>files := files w - {p}\<rparr>)
      else (Fulfilled (), console_error w (''Failed to cleanup file '' @ p)))"
  by (simp add: cleanupFile_def unlink_def)

lemma cleanupFile_fulfilled: "fst (cleanupFile w p) = Fulfilled ()"
  by (simp add: cleanupFile_eq)

lemma files_cleanupFile: "files (snd (cleanupFile w p)) = files w - {p}"
  by (auto simp: cleanupFile_eq)

lemma cleanupFile_cases:
  obtains w' where "cleanupFile w p = (Fulfilled (), w')" "files w' = files w - {p}"
  using cleanupFile_fulfilled [of w p] files_cleanupFile [of w p]
  by (cases "cleanupFile w p") auto

text \<open>
  Claim C10. For every state of the temp directory and every path, \<^verbatim>\<open>cleanupFile\<close> is
  fulfilled and never rejected, and the path is absent afterwards. When the file does not
  exist (never created, or already deleted) the rejected \<^verbatim>\<open>unlink\<close> is caught: one line
  is logged and nothing else changes. A second cleanup of the same path is fulfilled as
  well and leaves the files as the first one left them.
\<close>

theorem cleanupFile_never_throws:
  "fst (cleanupFile w p) = Fulfilled ()
   \<and> files (snd (cleanupFile w p)) = files w - {p}
   \<and> (p \<notin> files w \<longrightarrow>
        cleanupFile w p = (Fulfilled (), console_error w (''Failed to cleanup file '' @ p)))
   \<and> fst (cleanupFile (snd (cleanupFile w p)) p) = Fulfilled ()
   \<and> files (snd (cleanupFile (snd (cleanupFile w p)) p)) = files (snd (cleanupFile w p))"
  by (auto simp: cleanupFile_eq)

text \<open>A cleanup of a file that does not exist.\<close>

theorem cleanupFile_never_throws_witness:
  "cleanupFile \<lparr>files = {''temp/a.wav''}, console = [], unlinking = []\<rparr> ''temp/gone.png''
     = (Fulfilled (), \<lparr>files = {''temp/a.wav''},
                       console = [''Failed to cleanup file temp/gone.png''], unlinking = []\<rparr>)"
  using cleanupFile_never_throws [of "\<lparr>files = {''temp/a.wav''}, console = [], unlinking = []\<rparr>" "''temp/gone.png''"]
  by (simp add: console_error_def)

text \<open>Cleanups that were started without being awaited remove their files once they finish.\<close>

lemma files_fold_cleanupFile:
  "files (fold (\<lambda>filePath w'. snd (cleanupFile w' filePath)) ps w) = files w - set ps"
proof (induction ps arbitrary: w)
  case Nil
  then show ?case by simp
next
  case (Cons p ps)
  then show ?case by (auto simp: files_cleanupFile)
qed

lemma files_finish_cleanups: "files (finish_cleanups w) = files w - set (unlinking w)"
  by (simp add: finish_cleanups_def files_fold_cleanupFile)

section \<open>The transcriber\<close>

lemma transcribeAudio_eq:
  "transcribeAudio w whisper audioPath =
     (case whisper of
        Inr response \<Rightarrow>
          if audioPath \<in> files w
          then (Fulfilled
                  \<lparr>t_text = r_text response,
                   t_segments = (case r_segments response of None \<Rightarrow> [] | Some segs \<Rightarrow> segs),
                   t_duration = calculateDuration (r_segments response),
                   t_language = (case r_language response of
                                   None \<Rightarrow> ''en''
                                 | Some l \<Rightarrow> if l = [] then ''en'' else l)\<rparr>,
                w\<lparr>files := files w - {audioPath}\<rparr>)
          else (Rejected (Error ''Failed to transcribe audio''),
                snd (cleanupFile (console_error w (''Transcription error: '' @
                  ''ENOENT: no such file or directory, open '' @ audioPath)) audioPath))
      | Inl e \<Rightarrow>
          if audioPath \<in> files w
          then (Rejected (Error ''Failed to transcribe audio''),
                snd (cleanupFile (console_error w (''Transcription error: '' @ message e)) audioPath))
          else (Rejected (Error ''Failed to transcribe audio''),
                snd (cleanupFile (console_error w (''Transcription error: '' @
                  ''ENOENT: no such file or directory, open '' @ audioPath)) audioPath)))"
  by (cases whisper) (simp_all add: transcribeAudio_def readFile_def cleanupFile_eq)

text \<open>
  Claim C8. Whatever the speech-to-text service answers, \<^verbatim>\<open>transcribeAudio\<close> settles:
  it is fulfilled with a transcript or rejected with the error
  \<^verbatim>\<open>Failed to transcribe audio\<close>; in both cases the audio file it was given is absent
  from the temp directory afterwards.
\<close>

theorem transcribeAudio_deletes_input:
  "(case fst (transcribeAudio w whisper audioPath) of
      Fulfilled t \<Rightarrow> True
    | Rejected e \<Rightarrow> e = Error ''Failed to transcribe audio''
    | Pending \<Rightarrow> False)
   \<and> audioPath \<notin> files (snd (transcribeAudio w whisper audioPath))"
  by (cases whisper) (simp_all add: transcribeAudio_eq files_cleanupFile)

lemma example_transcribe_fails:
  "transcribeAudio \<lparr>files = {''temp/u1-u2.wav''}, console = [], unlinking = []\<rparr> (Inl (Error ''503''))
       ''temp/u1-u2.wav''
     = (Rejected (Error ''Failed to transcribe audio''),
        \<lparr>files = {}, console = [''Transcription error: 503''], unlinking = []\<rparr>)"
  by (simp add: transcribeAudio_eq cleanupFile_eq console_error_def)

text \<open>A rejected transcription removes the audio file.\<close>

theorem transcribeAudio_deletes_input_witness:
  "transcribeAudio \<lparr>files = {''temp/u1-u2.wav''}, console = [], unlinking = []\<rparr> (Inl (Error ''503''))
       ''temp/u1-u2.wav''
     = (Rejected (Error ''Failed to transcribe audio''),
        \<lparr>files = {}, console = [''Transcription error: 503''], unlinking = []\<rparr>)
   \<and> ''temp/u1-u2.wav'' \<notin> files (snd (transcribeAudio
        \<lparr>files = {''temp/u1-u2.wav''}, console = [], unlinking = []\<rparr> (Inl (Error ''503'')) ''temp/u1-u2.wav''))"
  using transcribeAudio_deletes_input
    [of "\<lparr>files = {''temp/u1-u2.wav''}, console = [], unlinking = []\<rparr>" "Inl (Error ''503'')" "''temp/u1-u2.wav''"]
  by (simp add: example_transcribe_fails)

text \<open>
  Claim C9. The duration of every transcript that \<^verbatim>\<open>transcribeAudio\<close> returns is the
  end offset of the last of its segments, and 0 when it has no segment.
\<close>

theorem transcript_duration_last_segment:
  "transcribeAudio w whisper audioPath = (Fulfilled t, w') \<Longrightarrow>
     t_duration t = (if t_segments t = [] then 0 else seg_end (last (t_segments t)))"
  by (cases whisper)
     (auto simp: transcribeAudio_eq calculateDuration_def last_conv_nth Let_def
           split: if_splits option.splits)

text \<open>A transcript of two segments.\<close>

theorem transcript_duration_last_segment_witness:
  "transcribeAudio \<lparr>files = {''temp/u1-u2.wav''}, console = [], unlinking = []\<rparr>
       (Inr \<lparr>r_text = ''hi there'',
             r_segments = Some [\<lparr>seg_start = 0, seg_end = 2, seg_text = ''hi''\<rparr>,
                                \<lparr>seg_start = 2, seg_end = 5, seg_text = ''there''\<rparr>],
             r_language = None\<rparr>) ''temp/u1-u2.wav''
     = (Fulfilled \<lparr>t_text = ''hi there'',
                   t_segments = [\<lparr>seg_start = 0, seg_end = 2, seg_text = ''hi''\<rparr>,
                                 \<lparr>seg_start = 2, seg_end = 5, seg_text = ''there''\<rparr>],
                   t_duration = 5, t_language = ''en''\<rparr>,
        \<lparr>files = {}, console = [], unlinking = []\<rparr>)
   \<and> (5::real) = seg_end (last [\<lparr>seg_start = 0, seg_end = 2, seg_text = ''hi''\<rparr>,
                                 \<lparr>seg_start = 2, seg_end = 5, seg_text = ''there''\<rparr>])"
proof -
  have run: "transcribeAudio \<lparr>files = {''temp/u1-u2.wav''}, console = [], unlinking = []\<rparr>
       (Inr \<lparr>r_text = ''hi there'',
             r_segments = Some [\<lparr>seg_start = 0, seg_end = 2, seg_text = ''hi''\<rparr>,
                                \<lparr>seg_start = 2, seg_end = 5, seg_text = ''there''\<rparr>],
             r_language = None\<rparr>) ''temp/u1-u2.wav''
     = (Fulfilled \<lparr>t_text = ''hi there'',
                   t_segments = [\<lparr>seg_start = 0, seg_end = 2, seg_text = ''hi''\<rparr>,
                                 \<lparr>seg_start = 2, seg_end = 5, seg_text = ''there''\<rparr>],
                   t_duration = 5, t_language = ''en''\<rparr>,
        \<lparr>files = {}, console = [], unlinking = []\<rparr>)"
    by (simp add: transcribeAudio_eq calculateDuration_def)
  from transcript_duration_last_segment [OF run] run show ?thesis by simp
qed

section \<open>Video ids\<close>

lemma run_Ch_length: "r \<in> set (run (Ch P) t) \<Longrightarrow> length t = Suc (length r)"
  by (cases t) (auto split: if_splits)

lemma first_in_set: "(case L of [] \<Rightarrow> None | c # _ \<Rightarrow> Some c) = Some m \<Longrightarrow> m \<in> set L"
  by (cases L) auto

lemma match_group_Ch_length:
  assumes "match_group pre (Ch P) suf s = Some m"
  shows "length m = 1"
proof -
  let ?L = "[take (length t - length r) t. t \<leftarrow> run pre s, r \<leftarrow> run (Ch P) t, run suf r \<noteq> []]"
  from assms have "m \<in> set ?L"
    unfolding match_group_def by (rule first_in_set)
  then obtain t r where r: "r \<in> set (run (Ch P) t)" and m: "m = take (length t - length r) t"
    by auto
  from run_Ch_length [OF r] m show ?thesis by simp
qed

text \<open>
  Group 2 of the YouTube pattern is a single character class without a quantifier, so
  whatever it captures has length 1 and the test for length 11 fails: for every YouTube
  URL the id is the fresh token.
\<close>

lemma extractVideoId_youtube: "isYouTubeUrl url \<Longrightarrow> extractVideoId url uuid = uuid"
  by (auto simp: extractVideoId_def youtubeId_group_def split: option.splits
           dest: match_group_Ch_length)

text \<open>The Instagram pattern does capture the token of the URL.\<close>

lemma extractVideoId_instagram_example:
  "extractVideoId ''https://www.instagram.com/p/Cabc_1-x/?a=1'' uuid = ''Cabc_1-x''"
  by (simp add: extractVideoId_def isYouTubeUrl_def isInstagramUrl_def test_def youtubeRegex_def
        instagramRegex_def scheme_www_def match_group_def instagramId_pre_def
        instagramId_group_def between_def code_of_def)

lemma isYouTubeUrl_example: "isYouTubeUrl ''https://www.youtube.com/watch?v=dQw4w9WgXcQ''"
  by (simp add: isYouTubeUrl_def test_def youtubeRegex_def scheme_www_def)

text \<open>
  Claim C4, at a YouTube URL with the 11-character token \<^verbatim>\<open>dQw4w9WgXcQ\<close>: the platform
  is the same in every call, but the pattern of \<^verbatim>\<open>extractVideoId\<close> does not match the
  URL, so each call returns the token that \<^verbatim>\<open>uuidv4()\<close> gives it, and two calls with
  two fresh tokens return two different ids.
\<close>

theorem extractVideoId_youtube_fresh_each_call:
  "platform_of ''https://www.youtube.com/watch?v=dQw4w9WgXcQ'' = YouTubeLike
   \<and> extractVideoId ''https://www.youtube.com/watch?v=dQw4w9WgXcQ'' ''uuid-A'' = ''uuid-A''
   \<and> extractVideoId ''https://www.youtube.com/watch?v=dQw4w9WgXcQ'' ''uuid-B'' = ''uuid-B''
   \<and> match_group youtubeId_pre youtubeId_group youtubeId_post
         ''https://www.youtube.com/watch?v=dQw4w9WgXcQ'' = None"
  by (simp add: extractVideoId_youtube isYouTubeUrl_example platform_of_def match_group_def
        youtubeId_pre_def youtubeId_group_def youtubeId_post_def dot_def)

section \<open>Audio extraction\<close>

lemma not_youtube_example: "\<not> isYouTubeUrl ''https://vimeo.com/76979871''"
  by (simp add: isYouTubeUrl_def test_def youtubeRegex_def scheme_www_def)

lemma extractAudio_not_youtube:
  "\<not> isYouTubeUrl url \<Longrightarrow>
     extractAudio w uuid1 uuid2 transcode url =
       (Rejected (Error ''Failed to extract audio from video''),
        console_error w (''Audio extraction error: '' @
          (if isInstagramUrl url then ''Instagram video extraction not yet implemented''
           else ''Unsupported video platform'')))"
  by (simp add: extractAudio_def extractInstagramAudio_def Let_def)

lemma extractAudio_transcode_error:
  "isYouTubeUrl url \<Longrightarrow>
     extractAudio w uuid1 uuid2 (TranscodeError err partial) url =
       (Rejected (Error ''Failed to extract audio from video''),
        console_error
          (console_error
             (if partial
              then w\<lparr>files := insert (path_join tempDir (uuid1 @ ''-'' @ uuid2 @ ''.wav'')) (files w)\<rparr>
              else w)
             (''FFmpeg error: '' @ message err))
          (''Audio extraction error: '' @ message err))"
  by (simp add: extractAudio_def extractYouTubeAudio_def Let_def extractVideoId_youtube)

lemma extractAudio_transcode_end:
  "isYouTubeUrl url \<Longrightarrow>
     extractAudio w uuid1 uuid2 TranscodeEnd url =
       (Fulfilled (path_join tempDir (uuid1 @ ''-'' @ uuid2 @ ''.wav'')),
        w\<lparr>files := insert (path_join tempDir (uuid1 @ ''-'' @ uuid2 @ ''.wav'')) (files w)\<rparr>)"
  by (simp add: extractAudio_def extractYouTubeAudio_def Let_def extractVideoId_youtube)

text \<open>
  Claim C6, as amended. \<^verbatim>\<open>extractAudio\<close> fails when the URL is not a YouTube URL (an
  unsupported platform, or Instagram, whose extraction is not implemented) and when the
  ffmpeg transcode of a YouTube URL raises an error; in every one of these cases it is
  rejected with the one error \<^verbatim>\<open>Failed to extract audio from video\<close>.
\<close>

theorem extractAudio_failures_share_one_error:
  assumes "\<not> isYouTubeUrl url \<or> transcode \<noteq> TranscodeEnd"
  shows "fst (extractAudio w uuid1 uuid2 transcode url)
           = Rejected (Error ''Failed to extract audio from video'')"
proof (cases "isYouTubeUrl url")
  case False
  then show ?thesis by (simp add: extractAudio_not_youtube)
next
  case True
  with assms obtain err partial where "transcode = TranscodeError err partial"
    by (cases transcode) auto
  with True show ?thesis by (simp add: extractAudio_transcode_error)
qed

text \<open>Both kinds of failure at concrete requests.\<close>

theorem extractAudio_failures_share_one_error_witness:
  "\<not> isYouTubeUrl ''https://vimeo.com/76979871''
   \<and> fst (extractAudio \<lparr>files = {}, console = [], unlinking = []\<rparr> ''u1'' ''u2'' TranscodeEnd
            ''https://vimeo.com/76979871'')
       = Rejected (Error ''Failed to extract audio from video'')
   \<and> fst (extractAudio \<lparr>files = {}, console = [], unlinking = []\<rparr> ''u1'' ''u2''
            (TranscodeError (Error ''Input stream error'') False)
            ''https://www.youtube.com/watch?v=dQw4w9WgXcQ'')
       = Rejected (Error ''Failed to extract audio from video'')"
  using extractAudio_failures_share_one_error
          [where url = "''https://vimeo.com/76979871''" and transcode = TranscodeEnd
             and w = "\<lparr>files = {}, console = [], unlinking = []\<rparr>" and ?uuid1.0 = "''u1''" and ?uuid2.0 = "''u2''"]
        extractAudio_failures_share_one_error
          [where url = "''https://www.youtube.com/watch?v=dQw4w9WgXcQ''"
             and transcode = "TranscodeError (Error ''Input stream error'') False"
             and w = "\<lparr>files = {}, console = [], unlinking = []\<rparr>" and ?uuid1.0 = "''u1''" and ?uuid2.0 = "''u2''"]
        not_youtube_example
  by simp

text \<open>
  Claim C6 as stated fails: for a URL of an unsupported platform and for a YouTube URL
  whose transcode stream errors, \<^verbatim>\<open>extractAudio\<close> is rejected with the same error, so
  the caller cannot tell the two failures apart.
\<close>

theorem extractAudio_distinct_errors_counterexample:
  "\<not> isYouTubeUrl ''https://vimeo.com/76979871''
   \<and> \<not> isInstagramUrl ''https://vimeo.com/76979871''
   \<and> isYouTubeUrl ''https://www.youtube.com/watch?v=dQw4w9WgXcQ''
   \<and> fst (extractAudio \<lparr>files = {}, console = [], unlinking = []\<rparr> ''u1'' ''u2'' TranscodeEnd
            ''https://vimeo.com/76979871'')
     = fst (extractAudio \<lparr>files = {}, console = [], unlinking = []\<rparr> ''u1'' ''u2''
            (TranscodeError (Error ''Input stream error'') False)
            ''https://www.youtube.com/watch?v=dQw4w9WgXcQ'')"
proof -
  have "\<not> isInstagramUrl ''https://vimeo.com/76979871''"
    by (simp add: isInstagramUrl_def test_def instagramRegex_def scheme_www_def)
  then show ?thesis
    by (simp add: not_youtube_example isYouTubeUrl_example extractAudio_not_youtube
                  extractAudio_transcode_error)
qed

section \<open>Frame extraction\<close>

lemma temp_video_not_frame:
  "path_join d (v @ ''-temp.mp4'') \<noteq> path_join d (v' @ ''-frame-'' @ s @ ''.png'')"
proof
  assume "path_join d (v @ ''-temp.mp4'') = path_join d (v' @ ''-frame-'' @ s @ ''.png'')"
  then have "last (path_join d (v @ ''-temp.mp4''))
               = last (path_join d (v' @ ''-frame-'' @ s @ ''.png''))"
    by simp
  then show False by (simp add: path_join_def)
qed

lemma screenshot_files_frames:
  "screenshot_files tempDir (v @ ''-frame-'') ''.png'' n
     = set (map (\<lambda>i. path_join tempDir (v @ ''-frame-'' @ string_of_nat i @ ''.png''))
              [1..<Suc n])"
  by (simp add: screenshot_files_def)

text \<open>The first \<open>k\<close> of the paths that the loop collects are the first \<open>k\<close> screenshots.\<close>

lemma take_frame_paths:
  "take k (map f [1..<Suc n]) = map f [1..<Suc (min k n)]"
proof (cases "k \<le> n")
  case True
  then have t: "take k [1..<Suc n] = [1..<1 + k]"
    by (intro take_upt) simp
  from True have m: "min k n = k"
    by simp
  show ?thesis unfolding take_map t m by simp
next
  case False
  then show ?thesis by (simp add: min_def)
qed

lemma extractFrames_end:
  "0 < frameCount \<Longrightarrow>
   extractFrames w uuid DownloadFinish (ScreenshotsEnd k) videoUrl frameCount =
     (Fulfilled (map (\<lambda>i. path_join tempDir
                  (extractVideoId videoUrl uuid @ ''-frame-'' @ string_of_nat i @ ''.png''))
                  [1..<Suc frameCount]),
      start_cleanupFile
        (w\<lparr>files := insert (path_join tempDir (extractVideoId videoUrl uuid @ ''-temp.mp4''))
                      (files w) \<union>
             set (map (\<lambda>i. path_join tempDir
                  (extractVideoId videoUrl uuid @ ''-frame-'' @ string_of_nat i @ ''.png''))
                  [1..<Suc (min k frameCount)])\<rparr>)
        (path_join tempDir (extractVideoId videoUrl uuid @ ''-temp.mp4'')))"
  by (simp add: extractFrames_def Let_def screenshot_files_frames)

lemma extractFrames_error:
  "0 < frameCount \<Longrightarrow>
   extractFrames w uuid DownloadFinish (ScreenshotsError err k) videoUrl frameCount =
     (Rejected err,
      start_cleanupFile
        (w\<lparr>files := insert (path_join tempDir (extractVideoId videoUrl uuid @ ''-temp.mp4''))
                      (files w) \<union>
             set (map (\<lambda>i. path_join tempDir
                  (extractVideoId videoUrl uuid @ ''-frame-'' @ string_of_nat i @ ''.png''))
                  [1..<Suc (min k frameCount)])\<rparr>)
        (path_join tempDir (extractVideoId videoUrl uuid @ ''-temp.mp4'')))"
  by (simp add: extractFrames_def Let_def screenshot_files_frames)

lemma extractFrames_fails:
  "extractFrames w uuid DownloadFails screenshots videoUrl frameCount =
     (Pending,
      w\<lparr>files := insert (path_join tempDir (extractVideoId videoUrl uuid @ ''-temp.mp4''))
                    (files w)\<rparr>)"
  by (simp add: extractFrames_def Let_def)

lemma extractFrames_zero:
  "fst (extractFrames w uuid download screenshots videoUrl 0) = Pending"
  by (cases download) (simp_all add: extractFrames_def Let_def)

text \<open>
  \<^verbatim>\<open>extractFrames\<close> is fulfilled only when the download finishes, the count is not 0 and
  ffmpeg ends; its result and the files it leaves are then as follows.
\<close>

lemma extractFrames_Fulfilled:
  assumes "extractFrames w uuid download screenshots videoUrl frameCount = (Fulfilled frames, w')"
  shows "download = DownloadFinish" and "0 < frameCount"
    and "\<exists>k. screenshots = ScreenshotsEnd k"
    and "frames = map (\<lambda>i. path_join tempDir
                  (extractVideoId videoUrl uuid @ ''-frame-'' @ string_of_nat i @ ''.png''))
                  [1..<Suc frameCount]"
    and "screenshots = ScreenshotsEnd k \<Longrightarrow>
           files w' = insert (path_join tempDir (extractVideoId videoUrl uuid @ ''-temp.mp4''))
                        (files w) \<union> set (take k frames)"
    and "unlinking w' = unlinking w @ [path_join tempDir (extractVideoId videoUrl uuid @ ''-temp.mp4'')]"
proof -
  show d: "download = DownloadFinish"
    using assms by (cases download) (simp_all add: extractFrames_fails)
  show n: "0 < frameCount"
  proof (rule ccontr)
    assume "\<not> 0 < frameCount"
    then have "frameCount = 0" by simp
    with assms extractFrames_zero [of w uuid download screenshots videoUrl] show False
      by simp
  qed
  from assms d n obtain j where s: "screenshots = ScreenshotsEnd j"
    by (cases screenshots) (simp_all add: extractFrames_error)
  then show "\<exists>k. screenshots = ScreenshotsEnd k" by blast
  show f: "frames = map (\<lambda>i. path_join tempDir
                  (extractVideoId videoUrl uuid @ ''-frame-'' @ string_of_nat i @ ''.png''))
                  [1..<Suc frameCount]"
    using assms d s n by (simp add: extractFrames_end)
  have w': "w' = start_cleanupFile
        (w\<lparr>files := insert (path_join tempDir (extractVideoId videoUrl uuid @ ''-temp.mp4''))
                      (files w) \<union> set (take j frames)\<rparr>)
        (path_join tempDir (extractVideoId videoUrl uuid @ ''-temp.mp4''))"
    using assms d s n unfolding f take_frame_paths by (simp add: extractFrames_end)
  then show "unlinking w' = unlinking w @ [path_join tempDir (extractVideoId videoUrl uuid @ ''-temp.mp4'')]"
    by (simp add: start_cleanupFile_def)
  show "files w' = insert (path_join tempDir (extractVideoId videoUrl uuid @ ''-temp.mp4''))
                        (files w) \<union> set (take k frames)"
    if "screenshots = ScreenshotsEnd k"
    using that s w' by (simp add: start_cleanupFile_def)
qed


section \<open>Frame analysis\<close>

lemma analyzeFrame_eq:
  "analyzeFrame vision i p acc w =
     (if p \<in> files w then
        (case vision i of
           Inr r \<Rightarrow> (Fulfilled (acc @ [\<lparr>frame = p, analysis = content r,
                                          timestamp = pushed_at r\<rparr>]), w)
         | Inl e \<Rightarrow> (Fulfilled acc,
                     console_error w (''Frame analysis error for '' @ p @ '': '' @ message e)))
      else (Fulfilled acc,
            console_error w (''Frame analysis error for '' @ p @ '': '' @
              ''ENOENT: no such file or directory, open '' @ p)))"
  by (simp add: analyzeFrame_def readFile_def split: sum.splits)

lemma expected_notes_simps [simp]:
  "expected_notes F vision i [] = []"
  "expected_notes F vision i (p # ps) = note_for F vision (i, p) @ expected_notes F vision (Suc i) ps"
  by (simp_all add: expected_notes_def)

lemma analyzeFrame_step:
  "\<exists>w1. analyzeFrame vision i p acc w = (Fulfilled (acc @ note_for (files w) vision (i, p)), w1)
        \<and> files w1 = files w"
  by (cases "vision i") (simp_all add: analyzeFrame_eq note_for_def)

lemma analyzeFrames_loop_notes:
  "files w = F \<Longrightarrow>
     \<exists>w'. analyzeFrames_loop vision i ps acc w = (Fulfilled (acc @ expected_notes F vision i ps), w')
        \<and> files w' = F"
proof (induction ps arbitrary: i acc w)
  case Nil
  then show ?case by simp
next
  case (Cons p ps)
  have F: "files w = F" by fact
  from analyzeFrame_step [of vision i p acc w] obtain w1 where
    step: "analyzeFrame vision i p acc w = (Fulfilled (acc @ note_for (files w) vision (i, p)), w1)"
    and files: "files w1 = files w"
    by blast
  from files F have files': "files w1 = F" by simp
  from Cons.IH [OF files', of "Suc i" "acc @ note_for F vision (i, p)"] obtain w' where
    rest: "analyzeFrames_loop vision (Suc i) ps (acc @ note_for F vision (i, p)) w1
       = (Fulfilled ((acc @ note_for F vision (i, p)) @ expected_notes F vision (Suc i) ps), w')"
    and fin: "files w' = F"
    by blast
  have "analyzeFrames_loop vision i (p # ps) acc w
          = analyzeFrames_loop vision (Suc i) ps (acc @ note_for F vision (i, p)) w1"
    unfolding analyzeFrames_loop.simps step F by simp
  with rest fin show ?case by simp
qed

lemma analyzeFrames_loop_files:
  "files (snd (analyzeFrames_loop vision i ps acc w)) = files w"
proof -
  from analyzeFrames_loop_notes [of w "files w" vision i ps acc] obtain w' where
    "analyzeFrames_loop vision i ps acc w
       = (Fulfilled (acc @ expected_notes (files w) vision i ps), w')"
    and "files w' = files w"
    by blast
  then show ?thesis by simp
qed

text \<open>
  The loop over a list of frames is the loop over a first part followed by the loop over
  the rest, started in the state the first part ends in.
\<close>

lemma analyzeFrames_loop_append:
  "analyzeFrames_loop vision i (ps @ qs) acc w =
     await (analyzeFrames_loop vision i ps acc w)
       (\<lambda>acc' w'. analyzeFrames_loop vision (i + length ps) qs acc' w')"
proof (induction ps arbitrary: i acc w)
  case Nil
  then show ?case by simp
next
  case (Cons p ps)
  from analyzeFrame_step [of vision i p acc w] obtain w1 where
    step: "analyzeFrame vision i p acc w
             = (Fulfilled (acc @ note_for (files w) vision (i, p)), w1)"
    by blast
  show ?case
    unfolding append_Cons analyzeFrames_loop.simps step await_simps Cons.IH by simp
qed

text \<open>
  The three helpers succeed on notes that all carry a text, and the first of them throws
  as soon as one note has the analysis \<^verbatim>\<open>null\<close>.
\<close>

lemma keyVisualElements_forEach_text:
  "\<forall>a\<in>set analyses. analysis a \<noteq> None \<Longrightarrow>
     \<exists>x. keyVisualElements_forEach analyses elements = Inr x"
  by (induction analyses arbitrary: elements) (auto simp: Let_def)

lemma keyVisualElements_forEach_null:
  "\<exists>a\<in>set analyses. analysis a = None \<Longrightarrow>
     keyVisualElements_forEach analyses elements = Inl (null_error ''toLowerCase'')"
proof (induction analyses arbitrary: elements)
  case Nil
  then show ?case by simp
next
  case (Cons a analyses)
  show ?case
  proof (cases "analysis a")
    case None
    then show ?thesis by simp
  next
    case (Some s)
    with Cons.prems have "\<exists>a\<in>set analyses. analysis a = None"
      by auto
    from Cons.IH [OF this] Some show ?thesis
      by (simp add: Let_def)
  qed
qed

lemma textFromAnalyses_forEach_text:
  "\<forall>a\<in>set analyses. analysis a \<noteq> None \<Longrightarrow>
     \<exists>x. textFromAnalyses_forEach analyses textElements = Inr x"
  by (induction analyses arbitrary: textElements) auto

lemma identifyImportantVisuals_text:
  "\<forall>a\<in>set analyses. analysis a \<noteq> None \<Longrightarrow> \<exists>x. identifyImportantVisuals analyses = Inr x"
  by (induction analyses) auto

lemma expected_notes_text:
  assumes "\<forall>j r. vision j = Inr r \<longrightarrow> content r \<noteq> None"
  shows "\<forall>a\<in>set (expected_notes F vision i ps). analysis a \<noteq> None"
proof (induction ps arbitrary: i)
  case Nil
  then show ?case by simp
next
  case (Cons p ps)
  have "\<forall>a\<in>set (note_for F vision (i, p)). analysis a \<noteq> None"
    using assms by (cases "vision i") (auto simp: note_for_def)
  with Cons.IH [of "Suc i"] show ?case by auto
qed

text \<open>
  \<^verbatim>\<open>analyzeFrames\<close> is always fulfilled and deletes no file, on the path through the outer
  \<^verbatim>\<open>catch\<close> as well.
\<close>

lemma analyzeFrames_settles:
  "\<exists>va w'. analyzeFrames w vision ps = (Fulfilled va, w') \<and> files w' = files w"
proof -
  from analyzeFrames_loop_notes [of w "files w" vision 0 ps "[]"] obtain w1 where
    loop: "analyzeFrames_loop vision 0 ps [] w
             = (Fulfilled (expected_notes (files w) vision 0 ps), w1)"
    and f: "files w1 = files w"
    by auto
  show ?thesis
    unfolding analyzeFrames_def loop
    by (cases "extractKeyVisualElements (expected_notes (files w) vision 0 ps)";
        cases "extractTextFromAnalyses (expected_notes (files w) vision 0 ps)";
        cases "identifyImportantVisuals (expected_notes (files w) vision 0 ps)")
       (simp_all add: f)
qed

text \<open>
  When every answer of the vision service carries a text, the notes that
  \<^verbatim>\<open>analyzeFrames\<close> returns are the expected ones.
\<close>

lemma analyzeFrames_notes:
  assumes "\<forall>j r. vision j = Inr r \<longrightarrow> content r \<noteq> None"
  shows "\<exists>va w'. analyzeFrames w vision ps = (Fulfilled va, w')
     \<and> frameAnalyses va = Some (expected_notes (files w) vision 0 ps)
     \<and> files w' = files w"
proof -
  from analyzeFrames_loop_notes [of w "files w" vision 0 ps "[]"] obtain w1 where
    loop: "analyzeFrames_loop vision 0 ps [] w
             = (Fulfilled (expected_notes (files w) vision 0 ps), w1)"
    and f: "files w1 = files w"
    by auto
  note nonnull = expected_notes_text [OF assms, where F = "files w" and i = 0 and ps = ps]
  from keyVisualElements_forEach_text [OF nonnull, of "[]"] obtain x where
    "extractKeyVisualElements (expected_notes (files w) vision 0 ps) = Inr (set_order x)"
    by (auto simp: extractKeyVisualElements_def)
  moreover from textFromAnalyses_forEach_text [OF nonnull, of "[]"] obtain y where
    "extractTextFromAnalyses (expected_notes (files w) vision 0 ps) = Inr y"
    by (auto simp: extractTextFromAnalyses_def)
  moreover from identifyImportantVisuals_text [OF nonnull] obtain z where
    "identifyImportantVisuals (expected_notes (files w) vision 0 ps) = Inr z"
    by blast
  ultimately show ?thesis
    unfolding analyzeFrames_def loop by (simp add: f)
qed

text \<open>
  When one answer carries \<^verbatim>\<open>null\<close> for a frame that is on disk, the loop pushes its
  note, the first helper throws, and the outer \<^verbatim>\<open>catch\<close> returns no note at all.
\<close>

lemma analyzeFrames_null_content:
  assumes "\<exists>a\<in>set (expected_notes (files w) vision 0 ps). analysis a = None"
  shows "\<exists>w'. analyzeFrames w vision ps =
           (Fulfilled \<lparr>frameAnalyses = Some [], keyVisualElements = [], textInImages = [],
                       sceneChanges = None, importantVisuals = []\<rparr>, w')"
proof -
  from analyzeFrames_loop_notes [of w "files w" vision 0 ps "[]"] obtain w1 where
    loop: "analyzeFrames_loop vision 0 ps [] w
             = (Fulfilled (expected_notes (files w) vision 0 ps), w1)"
    by auto
  from keyVisualElements_forEach_null [OF assms, of "[]"]
  have "extractKeyVisualElements (expected_notes (files w) vision 0 ps)
          = Inl (null_error ''toLowerCase'')"
    by (simp add: extractKeyVisualElements_def)
  then show ?thesis
    unfolding analyzeFrames_def loop by simp
qed

lemma frames_of_expected_notes:
  "map frame (expected_notes F vision i ps)
     = map snd (filter (\<lambda>(j, p). p \<in> F \<and> (case vision j of Inr r \<Rightarrow> True | Inl e \<Rightarrow> False))
                  (enumerate i ps))"
  by (induction ps arbitrary: i) (auto simp: note_for_def split: sum.splits)

lemma length_expected_notes_all:
  "set ps \<subseteq> F \<Longrightarrow> (\<And>j. \<exists>r. vision j = Inr r) \<Longrightarrow> length (expected_notes F vision i ps) = length ps"
proof (induction ps arbitrary: i)
  case Nil
  then show ?case by simp
next
  case (Cons p ps)
  from Cons.prems(2) [of i] obtain r where "vision i = Inr r" by blast
  with Cons show ?case by (simp add: note_for_def)
qed

text \<open>
  Claim C5, at three frames that are all on disk, where the vision service answers with a
  text for the first and the third and with the content \<^verbatim>\<open>null\<close> for the second: the
  loop collects three notes, \<^verbatim>\<open>extractKeyVisualElements\<close> throws on the second one, and
  \<^verbatim>\<open>analyzeFrames\<close> returns the result of its outer \<^verbatim>\<open>catch\<close>, which has no note, not
  even those of the two frames with a text.
\<close>

theorem analyzeFrames_null_content_loses_notes:
  "fst (analyzeFrames_loop
         (\<lambda>i. if i = 1 then Inr \<lparr>content = None, pushed_at = ''t''\<rparr>
               else Inr \<lparr>content = Some ''a chart'', pushed_at = ''t''\<rparr>)
         0 [''temp/u3-frame-1.png'', ''temp/u3-frame-2.png'', ''temp/u3-frame-3.png''] []
         \<lparr>files = {''temp/u3-frame-1.png'', ''temp/u3-frame-2.png'', ''temp/u3-frame-3.png''},
          console = [], unlinking = []\<rparr>)
     = Fulfilled
         [\<lparr>frame = ''temp/u3-frame-1.png'', analysis = Some ''a chart'', timestamp = ''t''\<rparr>,
          \<lparr>frame = ''temp/u3-frame-2.png'', analysis = None, timestamp = ''t''\<rparr>,
          \<lparr>frame = ''temp/u3-frame-3.png'', analysis = Some ''a chart'', timestamp = ''t''\<rparr>]
   \<and> analyzeFrames
         \<lparr>files = {''temp/u3-frame-1.png'', ''temp/u3-frame-2.png'', ''temp/u3-frame-3.png''},
          console = [], unlinking = []\<rparr>
         (\<lambda>i. if i = 1 then Inr \<lparr>content = None, pushed_at = ''t''\<rparr>
               else Inr \<lparr>content = Some ''a chart'', pushed_at = ''t''\<rparr>)
         [''temp/u3-frame-1.png'', ''temp/u3-frame-2.png'', ''temp/u3-frame-3.png'']
     = (Fulfilled \<lparr>frameAnalyses = Some [], keyVisualElements = [], textInImages = [],
                   sceneChanges = None, importantVisuals = []\<rparr>,
        \<lparr>files = {''temp/u3-frame-1.png'', ''temp/u3-frame-2.png'', ''temp/u3-frame-3.png''},
         console = [''Frame analysis error: TypeError: Cannot read properties of null (reading toLowerCase)''],
         unlinking = []\<rparr>)"
proof -
  have loop: "analyzeFrames_loop
         (\<lambda>i. if i = 1 then Inr \<lparr>content = None, pushed_at = ''t''\<rparr>
               else Inr \<lparr>content = Some ''a chart'', pushed_at = ''t''\<rparr>)
         0 [''temp/u3-frame-1.png'', ''temp/u3-frame-2.png'', ''temp/u3-frame-3.png''] []
         \<lparr>files = {''temp/u3-frame-1.png'', ''temp/u3-frame-2.png'', ''temp/u3-frame-3.png''},
          console = [], unlinking = []\<rparr>
     = (Fulfilled
         [\<lparr>frame = ''temp/u3-frame-1.png'', analysis = Some ''a chart'', timestamp = ''t''\<rparr>,
          \<lparr>frame = ''temp/u3-frame-2.png'', analysis = None, timestamp = ''t''\<rparr>,
          \<lparr>frame = ''temp/u3-frame-3.png'', analysis = Some ''a chart'', timestamp = ''t''\<rparr>],
        \<lparr>files = {''temp/u3-frame-1.png'', ''temp/u3-frame-2.png'', ''temp/u3-frame-3.png''},
          console = [], unlinking = []\<rparr>)"
    by (simp add: analyzeFrame_eq)
  have helper: "extractKeyVisualElements
         [\<lparr>frame = ''temp/u3-frame-1.png'', analysis = Some ''a chart'', timestamp = ''t''\<rparr>,
          \<lparr>frame = ''temp/u3-frame-2.png'', analysis = None, timestamp = ''t''\<rparr>,
          \<lparr>frame = ''temp/u3-frame-3.png'', analysis = Some ''a chart'', timestamp = ''t''\<rparr>]
        = Inl (Error ''TypeError: Cannot read properties of null (reading toLowerCase)'')"
    by (simp add: extractKeyVisualElements_def null_error_def)
  show ?thesis
    unfolding analyzeFrames_def loop by (simp add: helper console_error_def)
qed

text \<open>The cleanup loop removes exactly the frames it is given.\<close>

lemma cleanupFrames_files:
  "\<exists>w'. cleanupFrames ps w = (Fulfilled (), w') \<and> files w' = files w - set ps"
proof (induction ps arbitrary: w)
  case Nil
  then show ?case by simp
next
  case (Cons p ps)
  obtain w1 where c: "cleanupFile w p = (Fulfilled (), w1)" and f: "files w1 = files w - {p}"
    by (rule cleanupFile_cases)
  from Cons.IH [of w1] c f show ?case by auto
qed

lemma analyzeVisuals_end:
  assumes "extractFrames w uuid download screenshots videoUrl 10 = (Fulfilled frames, w1)"
  shows "\<exists>va w'. analyzeVisuals w uuid download screenshots vision videoUrl = (Fulfilled va, w')
           \<and> fst (analyzeFrames (finish_cleanups w1) vision frames) = Fulfilled va
           \<and> files w' = files w1 - set (unlinking w1) - set frames"
proof -
  obtain va w2 where a: "analyzeFrames (finish_cleanups w1) vision frames = (Fulfilled va, w2)"
    and f2: "files w2 = files (finish_cleanups w1)"
    using analyzeFrames_settles [of "finish_cleanups w1" vision frames] by auto
  obtain w3 where c: "cleanupFrames frames w2 = (Fulfilled (), w3)"
    and f3: "files w3 = files w2 - set frames"
    using cleanupFrames_files [of frames w2] by auto
  from assms a c f2 f3 show ?thesis
    by (simp add: analyzeVisuals_def files_finish_cleanups)
qed

lemma analyzeVisuals_all_ok:
  assumes x: "extractFrames w uuid download (ScreenshotsEnd k) videoUrl 10 = (Fulfilled frames, w1)"
    and k: "10 \<le> k"
    and u: "unlinking w = []"
    and ok: "\<And>j. \<exists>r. vision j = Inr r"
    and nonnull: "\<forall>j r. vision j = Inr r \<longrightarrow> content r \<noteq> None"
  shows "\<exists>va w'. analyzeVisuals w uuid download (ScreenshotsEnd k) vision videoUrl = (Fulfilled va, w')
           \<and> map_option length (frameAnalyses va) = Some 10"
proof -
  let ?tmp = "path_join tempDir (extractVideoId videoUrl uuid @ ''-temp.mp4'')"
  from analyzeVisuals_end [OF x, of vision] obtain va w' where
    v: "analyzeVisuals w uuid download (ScreenshotsEnd k) vision videoUrl = (Fulfilled va, w')"
    and a: "fst (analyzeFrames (finish_cleanups w1) vision frames) = Fulfilled va"
    by blast
  from analyzeFrames_notes [OF nonnull, where w = "finish_cleanups w1" and ps = frames]
  obtain va' w2 where
    a': "analyzeFrames (finish_cleanups w1) vision frames = (Fulfilled va', w2)"
    and n: "frameAnalyses va' = Some (expected_notes (files (finish_cleanups w1)) vision 0 frames)"
    by blast
  from a a' have "va' = va" by simp
  with n have n': "frameAnalyses va
                     = Some (expected_notes (files (finish_cleanups w1)) vision 0 frames)"
    by simp
  note fr = extractFrames_Fulfilled(4) [OF x]
  from fr have len: "length frames = 10"
    by simp
  from extractFrames_Fulfilled(5) [OF x refl] len k
  have f1: "files w1 = insert ?tmp (files w) \<union> set frames"
    by simp
  from extractFrames_Fulfilled(6) [OF x] u have u1: "unlinking w1 = [?tmp]"
    by simp
  have "?tmp \<notin> set frames"
    unfolding fr using temp_video_not_frame by auto
  with f1 u1 have sub: "set frames \<subseteq> files (finish_cleanups w1)"
    by (auto simp: files_finish_cleanups)
  from length_expected_notes_all [OF sub ok, where i = 0] len
  have "length (expected_notes (files (finish_cleanups w1)) vision 0 frames) = 10"
    by simp
  with n' v show ?thesis by simp
qed

lemma analyzeFrame_files: "files (snd (analyzeFrame vision i framePath analyses w)) = files w"
proof -
  from analyzeFrame_step [of vision i framePath analyses w] obtain w1 where
    "analyzeFrame vision i framePath analyses w
       = (Fulfilled (analyses @ note_for (files w) vision (i, framePath)), w1)"
    and "files w1 = files w"
    by blast
  then show ?thesis by simp
qed

lemma analyzeFrames_files: "files (snd (analyzeFrames w vision framePaths)) = files w"
proof -
  from analyzeFrames_settles [of w vision framePaths] obtain va w' where
    "analyzeFrames w vision framePaths = (Fulfilled va, w')" and "files w' = files w"
    by blast
  then show ?thesis by simp
qed

lemma analyzeVisuals_files:
  assumes "extractFrames w uuid download screenshots videoUrl 10 = (Fulfilled frames, w1)"
  shows "files (snd (analyzeVisuals w uuid download screenshots vision videoUrl))
           = files w1 - set (unlinking w1) - set frames"
proof -
  from analyzeVisuals_end [OF assms, of vision] obtain va w' where
    "analyzeVisuals w uuid download screenshots vision videoUrl = (Fulfilled va, w')"
    and "files w' = files w1 - set (unlinking w1) - set frames"
    by blast
  then show ?thesis by simp
qed

text \<open>
  Claim C7, as amended. The analysis of a frame deletes no file, whether it succeeds or
  fails: after the attempts on the first \<open>k\<close> frames, and after \<^verbatim>\<open>analyzeFrames\<close> as a
  whole, the files are those the analysis started with. The frames are deleted afterwards,
  all of them, by the cleanup loop of \<^verbatim>\<open>analyzeVisuals\<close>, once every frame has been
  analysed; apart from them only the temporary video, whose cleanup
  \<^verbatim>\<open>extractFrames\<close> had started, is gone by then.
\<close>

theorem analyzeVisuals_deletes_frames_after_analysis:
  "files (snd (analyzeFrame vision i framePath analyses w)) = files w
   \<and> files (snd (analyzeFrames_loop vision 0 (take k framePaths) [] w)) = files w
   \<and> files (snd (analyzeFrames w vision framePaths)) = files w
   \<and> (extractFrames w uuid download screenshots videoUrl 10 = (Fulfilled frames, w1) \<longrightarrow>
        files (snd (analyzeVisuals w uuid download screenshots vision videoUrl))
          = files w1 - set (unlinking w1) - set frames)"
  by (simp add: analyzeFrame_files analyzeFrames_loop_files analyzeFrames_files
                analyzeVisuals_files)

text \<open>
  Claim C7 as stated fails: with two frames on disk, the first frame is still there after
  its own analysis has succeeded, next to the second one, and both are there when
  \<^verbatim>\<open>analyzeFrames\<close> has finished.
\<close>

theorem analyzeFrames_one_frame_at_a_time_counterexample:
  "analyzeFrame example_vision 0 ''temp/u3-frame-1.png'' []
       \<lparr>files = {''temp/u3-frame-1.png'', ''temp/u3-frame-2.png''}, console = [], unlinking = []\<rparr>
     = (Fulfilled [\<lparr>frame = ''temp/u3-frame-1.png'', analysis = Some ''a chart'',
                    timestamp = ''t''\<rparr>],
        \<lparr>files = {''temp/u3-frame-1.png'', ''temp/u3-frame-2.png''}, console = [], unlinking = []\<rparr>)
   \<and> files (snd (analyzeFrames
        \<lparr>files = {''temp/u3-frame-1.png'', ''temp/u3-frame-2.png''}, console = [], unlinking = []\<rparr>
        example_vision [''temp/u3-frame-1.png'', ''temp/u3-frame-2.png'']))
     = {''temp/u3-frame-1.png'', ''temp/u3-frame-2.png''}"
  by (simp add: analyzeFrame_eq analyzeFrames_files)

section \<open>The request handler\<close>

lemma extractAudio_Rejected:
  "fst (extractAudio w uuid1 uuid2 transcode url) = Rejected err \<Longrightarrow>
     err = Error ''Failed to extract audio from video''"
  by (cases "isYouTubeUrl url"; cases transcode)
     (simp_all add: extractAudio_not_youtube extractAudio_transcode_error extractAudio_transcode_end)

lemma transcribeAudio_Rejected:
  "fst (transcribeAudio w whisper audioPath) = Rejected err \<Longrightarrow>
     err = Error ''Failed to transcribe audio''"
  by (cases whisper) (simp_all add: transcribeAudio_eq split: if_splits)

lemma post_analyze_extract_rejected:
  assumes "extractAudio w (uuid_audio_id e) (uuid_audio_file e) (env_transcode e) url = (Rejected err, w1)"
  shows "post_analyze e w url format =
           (Fulfilled (Json500 ''Failed to analyze video'' (message err)),
            console_error w1 (''Video analysis error: '' @ message err))"
  by (simp add: post_analyze_def assms)

lemma post_analyze_transcribe_rejected:
  assumes "extractAudio w (uuid_audio_id e) (uuid_audio_file e) (env_transcode e) url = (Fulfilled audioPath, w1)"
    and "transcribeAudio w1 (env_whisper e) audioPath = (Rejected err, w2)"
  shows "post_analyze e w url format =
           (Fulfilled (Json500 ''Failed to analyze video'' (message err)),
            console_error w2 (''Video analysis error: '' @ message err))"
  by (simp add: post_analyze_def assms)

text \<open>
  Claim C1, as amended. When audio extraction is rejected, the handler answers with
  status 500, \<^verbatim>\<open>Failed to analyze video\<close> and the message of the extraction error, and
  leaves the files as the extraction left them; when extraction succeeds and
  transcription is rejected, it answers with status 500 and the message of the
  transcription error, and leaves the files as the transcription left them. In both
  cases the visual analysis is not run and no transcript is substituted.
\<close>

theorem post_analyze_audio_failure_is_fatal:
  "(fst (extractAudio w (uuid_audio_id e) (uuid_audio_file e) (env_transcode e) url) = Rejected err
      \<longrightarrow> fst (post_analyze e w url format)
            = Fulfilled (Json500 ''Failed to analyze video'' ''Failed to extract audio from video'')
          \<and> files (snd (post_analyze e w url format))
            = files (snd (extractAudio w (uuid_audio_id e) (uuid_audio_file e) (env_transcode e) url)))
   \<and> (extractAudio w (uuid_audio_id e) (uuid_audio_file e) (env_transcode e) url
        = (Fulfilled audioPath, w1)
      \<and> fst (transcribeAudio w1 (env_whisper e) audioPath) = Rejected err
      \<longrightarrow> fst (post_analyze e w url format)
            = Fulfilled (Json500 ''Failed to analyze video'' ''Failed to transcribe audio'')
          \<and> files (snd (post_analyze e w url format))
            = files (snd (transcribeAudio w1 (env_whisper e) audioPath)))"
proof (intro conjI impI)
  assume r: "fst (extractAudio w (uuid_audio_id e) (uuid_audio_file e) (env_transcode e) url) = Rejected err"
  then obtain w1 where x: "extractAudio w (uuid_audio_id e) (uuid_audio_file e) (env_transcode e) url = (Rejected err, w1)"
    by (cases "extractAudio w (uuid_audio_id e) (uuid_audio_file e) (env_transcode e) url") simp
  from extractAudio_Rejected [OF r] have m: "message err = ''Failed to extract audio from video''"
    by simp
  from post_analyze_extract_rejected [OF x, of format] m
  show "fst (post_analyze e w url format)
            = Fulfilled (Json500 ''Failed to analyze video'' ''Failed to extract audio from video'')"
    by simp
  from post_analyze_extract_rejected [OF x, of format] x
  show "files (snd (post_analyze e w url format))
            = files (snd (extractAudio w (uuid_audio_id e) (uuid_audio_file e) (env_transcode e) url))"
    by simp
next
  assume a: "extractAudio w (uuid_audio_id e) (uuid_audio_file e) (env_transcode e) url
        = (Fulfilled audioPath, w1)
      \<and> fst (transcribeAudio w1 (env_whisper e) audioPath) = Rejected err"
  then have x: "extractAudio w (uuid_audio_id e) (uuid_audio_file e) (env_transcode e) url
        = (Fulfilled audioPath, w1)"
    and r: "fst (transcribeAudio w1 (env_whisper e) audioPath) = Rejected err"
    by simp_all
  from r obtain w2 where t: "transcribeAudio w1 (env_whisper e) audioPath = (Rejected err, w2)"
    by (cases "transcribeAudio w1 (env_whisper e) audioPath") simp
  from transcribeAudio_Rejected [OF r] have m: "message err = ''Failed to transcribe audio''"
    by simp
  from post_analyze_transcribe_rejected [OF x t, of format] m
  show "fst (post_analyze e w url format)
            = Fulfilled (Json500 ''Failed to analyze video'' ''Failed to transcribe audio'')"
    by simp
  from post_analyze_transcribe_rejected [OF x t, of format] t
  show "files (snd (post_analyze e w url format))
            = files (snd (transcribeAudio w1 (env_whisper e) audioPath))"
    by simp
qed

section \<open>Runs of the sample request\<close>

lemma frame_paths_3:
  "map (\<lambda>i. path_join tempDir (v @ ''-frame-'' @ string_of_nat i @ ''.png'')) [1..<Suc 3]
     = [path_join tempDir (v @ ''-frame-1.png''), path_join tempDir (v @ ''-frame-2.png''),
        path_join tempDir (v @ ''-frame-3.png'')]"
  by (simp add: upt_rec string_of_nat.simps)


lemma frame_paths_10:
  "map (\<lambda>i. path_join tempDir (v @ ''-frame-'' @ string_of_nat i @ ''.png'')) [1..<Suc 10]
     = [path_join tempDir (v @ ''-frame-1.png''), path_join tempDir (v @ ''-frame-2.png''),
        path_join tempDir (v @ ''-frame-3.png''), path_join tempDir (v @ ''-frame-4.png''),
        path_join tempDir (v @ ''-frame-5.png''), path_join tempDir (v @ ''-frame-6.png''),
        path_join tempDir (v @ ''-frame-7.png''), path_join tempDir (v @ ''-frame-8.png''),
        path_join tempDir (v @ ''-frame-9.png''), path_join tempDir (v @ ''-frame-10.png'')]"
  by (simp add: upt_rec string_of_nat.simps)

lemma min_3_10: "min 3 (10::nat) = 3"
  by simp


lemma example_extractVideoId: "extractVideoId example_url uuid = uuid"
  by (rule extractVideoId_youtube [OF isYouTubeUrl_example])




lemma example_frames_10:
  "extractFrames empty_world ''u3'' DownloadFinish (ScreenshotsEnd 10) example_url 10
     = (Fulfilled [''temp/u3-frame-1.png'', ''temp/u3-frame-2.png'', ''temp/u3-frame-3.png'',
                    ''temp/u3-frame-4.png'', ''temp/u3-frame-5.png'', ''temp/u3-frame-6.png'',
                    ''temp/u3-frame-7.png'', ''temp/u3-frame-8.png'', ''temp/u3-frame-9.png'',
                    ''temp/u3-frame-10.png''],
        \<lparr>files = {''temp/u3-temp.mp4'',
                    ''temp/u3-frame-1.png'', ''temp/u3-frame-2.png'', ''temp/u3-frame-3.png'',
                    ''temp/u3-frame-4.png'', ''temp/u3-frame-5.png'', ''temp/u3-frame-6.png'',
                    ''temp/u3-frame-7.png'', ''temp/u3-frame-8.png'', ''temp/u3-frame-9.png'',
                    ''temp/u3-frame-10.png''},
         console = [], unlinking = [''temp/u3-temp.mp4'']\<rparr>)"
  unfolding extractFrames_end [OF zero_less_numeral] example_extractVideoId min.idem frame_paths_10
  by (simp add: start_cleanupFile_def path_join_def tempDir_def insert_commute)

text \<open>The sample request with every service answering: ten frames are extracted and none is left.\<close>

theorem analyzeVisuals_deletes_frames_after_analysis_witness:
  "extractFrames empty_world ''u3'' DownloadFinish (ScreenshotsEnd 10) example_url 10
     = (Fulfilled [''temp/u3-frame-1.png'', ''temp/u3-frame-2.png'', ''temp/u3-frame-3.png'',
                    ''temp/u3-frame-4.png'', ''temp/u3-frame-5.png'', ''temp/u3-frame-6.png'',
                    ''temp/u3-frame-7.png'', ''temp/u3-frame-8.png'', ''temp/u3-frame-9.png'',
                    ''temp/u3-frame-10.png''],
        \<lparr>files = {''temp/u3-temp.mp4'',
                    ''temp/u3-frame-1.png'', ''temp/u3-frame-2.png'', ''temp/u3-frame-3.png'',
                    ''temp/u3-frame-4.png'', ''temp/u3-frame-5.png'', ''temp/u3-frame-6.png'',
                    ''temp/u3-frame-7.png'', ''temp/u3-frame-8.png'', ''temp/u3-frame-9.png'',
                    ''temp/u3-frame-10.png''},
         console = [], unlinking = [''temp/u3-temp.mp4'']\<rparr>)
   \<and> files (snd (analyzeVisuals empty_world ''u3'' DownloadFinish (ScreenshotsEnd 10) example_vision
                    example_url)) = {}"
proof -
  note t = analyzeVisuals_deletes_frames_after_analysis
    [where w = empty_world and uuid = "''u3''" and download = DownloadFinish
       and screenshots = "ScreenshotsEnd 10" and videoUrl = example_url and vision = example_vision
       and frames = "[''temp/u3-frame-1.png'', ''temp/u3-frame-2.png'', ''temp/u3-frame-3.png'',
                    ''temp/u3-frame-4.png'', ''temp/u3-frame-5.png'', ''temp/u3-frame-6.png'',
                    ''temp/u3-frame-7.png'', ''temp/u3-frame-8.png'', ''temp/u3-frame-9.png'',
                    ''temp/u3-frame-10.png'']"
       and ?w1.0 = "\<lparr>files = {''temp/u3-temp.mp4'',
                    ''temp/u3-frame-1.png'', ''temp/u3-frame-2.png'', ''temp/u3-frame-3.png'',
                    ''temp/u3-frame-4.png'', ''temp/u3-frame-5.png'', ''temp/u3-frame-6.png'',
                    ''temp/u3-frame-7.png'', ''temp/u3-frame-8.png'', ''temp/u3-frame-9.png'',
                    ''temp/u3-frame-10.png''},
         console = [], unlinking = [''temp/u3-temp.mp4'']\<rparr>"]
  from t example_frames_10
  have "files (snd (analyzeVisuals empty_world ''u3'' DownloadFinish (ScreenshotsEnd 10) example_vision
                    example_url))
          = {''temp/u3-temp.mp4'',
                    ''temp/u3-frame-1.png'', ''temp/u3-frame-2.png'', ''temp/u3-frame-3.png'',
                    ''temp/u3-frame-4.png'', ''temp/u3-frame-5.png'', ''temp/u3-frame-6.png'',
                    ''temp/u3-frame-7.png'', ''temp/u3-frame-8.png'', ''temp/u3-frame-9.png'',
                    ''temp/u3-frame-10.png''}
            - set [''temp/u3-temp.mp4'']
            - set [''temp/u3-frame-1.png'', ''temp/u3-frame-2.png'', ''temp/u3-frame-3.png'',
                    ''temp/u3-frame-4.png'', ''temp/u3-frame-5.png'', ''temp/u3-frame-6.png'',
                    ''temp/u3-frame-7.png'', ''temp/u3-frame-8.png'', ''temp/u3-frame-9.png'',
                    ''temp/u3-frame-10.png'']"
    by simp
  also have "\<dots> = {}" by simp
  finally show ?thesis using example_frames_10 by simp
qed

lemma example_frames_error_3:
  "extractFrames w ''u3'' DownloadFinish (ScreenshotsError err 3) example_url 10
     = (Rejected err,
        start_cleanupFile
          (w\<lparr>files := insert ''temp/u3-temp.mp4'' (files w) \<union>
               {''temp/u3-frame-1.png'', ''temp/u3-frame-2.png'', ''temp/u3-frame-3.png''}\<rparr>)
          ''temp/u3-temp.mp4'')"
  unfolding extractFrames_error [OF zero_less_numeral] example_extractVideoId min_3_10 frame_paths_3
  by (simp add: path_join_def tempDir_def insert_commute)

text \<open>
  Claim C2, at two runs of the sample request. In the first the audio branch succeeds and
  ffmpeg fails after it has written three of the ten screenshots: the handler answers
  with success, and the three frame files are still in the temp directory. In the second
  ffmpeg fails the audio transcode after it has created the output file: the handler
  answers with status 500, and the audio file is still in the temp directory.
\<close>

theorem post_analyze_leaves_files_behind:
  "post_analyze (example_env TranscodeEnd (ScreenshotsError (Error ''ffmpeg exited with code 1'') 3))
       empty_world example_url ''keypoints''
     = (Fulfilled (Json200 ''summary''
          \<lparr>m_url = example_url, m_format = ''keypoints'', m_duration = 0, m_processedAt = ''now''\<rparr>),
        \<lparr>files = {''temp/u3-frame-1.png'', ''temp/u3-frame-2.png'', ''temp/u3-frame-3.png''},
         console = [''Visual analysis error: ffmpeg exited with code 1''], unlinking = []\<rparr>)
   \<and> post_analyze (example_env (TranscodeError (Error ''Input stream error'') True) (ScreenshotsEnd 10))
       empty_world example_url ''keypoints''
     = (Fulfilled (Json500 ''Failed to analyze video'' ''Failed to extract audio from video''),
        \<lparr>files = {''temp/u1-u2.wav''},
         console = [''FFmpeg error: Input stream error'',
                    ''Audio extraction error: Input stream error'',
                    ''Video analysis error: Failed to extract audio from video''],
         unlinking = []\<rparr>)"
  by (simp add: post_analyze_def extractAudio_transcode_end extractAudio_transcode_error
        isYouTubeUrl_example transcribeAudio_eq calculateDuration_def
        analyzeVisuals_def example_frames_error_3 cleanupFile_eq
        start_cleanupFile_def finish_cleanups_def
        path_join_def tempDir_def insert_commute console_error_def select_generator_def)

text \<open>
  Claim C1 as stated fails: in a run of the sample request in which the audio transcode
  errors while the visual analysis, run on its own, is fulfilled with ten notes, the
  handler answers with status 500 and not with an extracted content.
\<close>

theorem post_analyze_audio_failure_counterexample:
  "fst (post_analyze (example_env (TranscodeError (Error ''Input stream error'') False) (ScreenshotsEnd 10))
          empty_world example_url ''keypoints'')
     = Fulfilled (Json500 ''Failed to analyze video'' ''Failed to extract audio from video'')
   \<and> (case fst (analyzeVisuals empty_world ''u3'' DownloadFinish (ScreenshotsEnd 10) example_vision
                   example_url) of
        Fulfilled va \<Rightarrow> map_option length (frameAnalyses va) = Some 10
      | Rejected e \<Rightarrow> False
      | Pending \<Rightarrow> False)"
proof
  show "fst (post_analyze (example_env (TranscodeError (Error ''Input stream error'') False) (ScreenshotsEnd 10))
          empty_world example_url ''keypoints'')
     = Fulfilled (Json500 ''Failed to analyze video'' ''Failed to extract audio from video'')"
    by (simp add: post_analyze_def extractAudio_transcode_error isYouTubeUrl_example)
next
  have ok: "\<And>j. \<exists>r. example_vision j = Inr r"
    by simp
  have nonnull: "\<forall>j r. example_vision j = Inr r \<longrightarrow> content r \<noteq> None"
    by auto
  have k: "(10::nat) \<le> 10" and u: "unlinking empty_world = []"
    by simp_all
  from analyzeVisuals_all_ok [OF example_frames_10 k u ok nonnull] obtain va w' where
    "analyzeVisuals empty_world ''u3'' DownloadFinish (ScreenshotsEnd 10) example_vision example_url
       = (Fulfilled va, w')"
    and "map_option length (frameAnalyses va) = Some 10"
    by blast
  then show "case fst (analyzeVisuals empty_world ''u3'' DownloadFinish (ScreenshotsEnd 10) example_vision
                   example_url) of
        Fulfilled va \<Rightarrow> map_option length (frameAnalyses va) = Some 10
      | Rejected e \<Rightarrow> False
      | Pending \<Rightarrow> False"
    by simp
qed

lemma example_extractAudio_end:
  "extractAudio empty_world ''u1'' ''u2'' TranscodeEnd example_url
     = (Fulfilled ''temp/u1-u2.wav'', \<lparr>files = {''temp/u1-u2.wav''}, console = [], unlinking = []\<rparr>)"
  by (simp add: extractAudio_transcode_end isYouTubeUrl_example path_join_def tempDir_def)

text \<open>One run in which the transcode errors and one in which the transcription is rejected.\<close>

theorem post_analyze_audio_failure_is_fatal_witness:
  "fst (extractAudio empty_world ''u1'' ''u2'' (TranscodeError (Error ''Input stream error'') False)
          example_url) = Rejected (Error ''Failed to extract audio from video'')
   \<and> fst (post_analyze (example_env (TranscodeError (Error ''Input stream error'') False) (ScreenshotsEnd 10))
          empty_world example_url ''keypoints'')
       = Fulfilled (Json500 ''Failed to analyze video'' ''Failed to extract audio from video'')
   \<and> fst (transcribeAudio \<lparr>files = {''temp/u1-u2.wav''}, console = [], unlinking = []\<rparr> (Inl (Error ''503''))
          ''temp/u1-u2.wav'') = Rejected (Error ''Failed to transcribe audio'')
   \<and> fst (post_analyze ((example_env TranscodeEnd (ScreenshotsEnd 10))\<lparr>env_whisper := Inl (Error ''503'')\<rparr>)
          empty_world example_url ''keypoints'')
       = Fulfilled (Json500 ''Failed to analyze video'' ''Failed to transcribe audio'')
   \<and> files (snd (post_analyze ((example_env TranscodeEnd (ScreenshotsEnd 10))\<lparr>env_whisper := Inl (Error ''503'')\<rparr>)
          empty_world example_url ''keypoints'')) = {}"
proof -
  have x: "fst (extractAudio empty_world ''u1'' ''u2''
                 (TranscodeError (Error ''Input stream error'') False) example_url)
             = Rejected (Error ''Failed to extract audio from video'')"
    by (simp add: extractAudio_transcode_error isYouTubeUrl_example)
  have t: "fst (transcribeAudio \<lparr>files = {''temp/u1-u2.wav''}, console = [], unlinking = []\<rparr> (Inl (Error ''503''))
          ''temp/u1-u2.wav'') = Rejected (Error ''Failed to transcribe audio'')"
    by (simp add: example_transcribe_fails)
  note a = post_analyze_audio_failure_is_fatal
      [where e = "example_env (TranscodeError (Error ''Input stream error'') False) (ScreenshotsEnd 10)"
         and w = empty_world and url = example_url and format = "''keypoints''"
         and err = "Error ''Failed to extract audio from video''"]
  note b = post_analyze_audio_failure_is_fatal
      [where e = "(example_env TranscodeEnd (ScreenshotsEnd 10))\<lparr>env_whisper := Inl (Error ''503'')\<rparr>"
         and w = empty_world and url = example_url and format = "''keypoints''"
         and err = "Error ''Failed to transcribe audio''"
         and audioPath = "''temp/u1-u2.wav''"
         and ?w1.0 = "\<lparr>files = {''temp/u1-u2.wav''}, console = [], unlinking = []\<rparr>"]
  from a x have 1: "fst (post_analyze (example_env (TranscodeError (Error ''Input stream error'') False) (ScreenshotsEnd 10))
          empty_world example_url ''keypoints'')
       = Fulfilled (Json500 ''Failed to analyze video'' ''Failed to extract audio from video'')"
    by simp
  from b example_extractAudio_end t
  have 2: "fst (post_analyze ((example_env TranscodeEnd (ScreenshotsEnd 10))\<lparr>env_whisper := Inl (Error ''503'')\<rparr>)
          empty_world example_url ''keypoints'')
       = Fulfilled (Json500 ''Failed to analyze video'' ''Failed to transcribe audio'')
     \<and> files (snd (post_analyze ((example_env TranscodeEnd (ScreenshotsEnd 10))\<lparr>env_whisper := Inl (Error ''503'')\<rparr>)
          empty_world example_url ''keypoints''))
        = files (snd (transcribeAudio \<lparr>files = {''temp/u1-u2.wav''}, console = [], unlinking = []\<rparr> (Inl (Error ''503''))
          ''temp/u1-u2.wav''))"
    by simp
  from x 1 t 2 show ?thesis by (simp add: example_transcribe_fails)
qed

text \<open>
  The run of ten frames of which the third and the sixth (positions 2 and 5) fail, every
  other answer carrying a text: eight notes, in the order of the frames.
\<close>

lemma analyzeFrames_ten_frames_example:
  "(case fst (analyzeFrames
        \<lparr>files = {''temp/u3-frame-1.png'', ''temp/u3-frame-2.png'', ''temp/u3-frame-3.png'',
                    ''temp/u3-frame-4.png'', ''temp/u3-frame-5.png'', ''temp/u3-frame-6.png'',
                    ''temp/u3-frame-7.png'', ''temp/u3-frame-8.png'', ''temp/u3-frame-9.png'',
                    ''temp/u3-frame-10.png''},
          console = [], unlinking = []\<rparr>
        (\<lambda>i. if i = 2 \<or> i = 5 then Inl (Error ''429'')
             else Inr \<lparr>content = Some ''a chart'', pushed_at = ''t''\<rparr>)
        [''temp/u3-frame-1.png'', ''temp/u3-frame-2.png'', ''temp/u3-frame-3.png'',
          ''temp/u3-frame-4.png'', ''temp/u3-frame-5.png'', ''temp/u3-frame-6.png'',
          ''temp/u3-frame-7.png'', ''temp/u3-frame-8.png'', ''temp/u3-frame-9.png'',
          ''temp/u3-frame-10.png'']) of
      Fulfilled va \<Rightarrow>
        map_option (map frame) (frameAnalyses va)
          = Some [''temp/u3-frame-1.png'', ''temp/u3-frame-2.png'', ''temp/u3-frame-4.png'',
                  ''temp/u3-frame-5.png'', ''temp/u3-frame-7.png'', ''temp/u3-frame-8.png'',
                  ''temp/u3-frame-9.png'', ''temp/u3-frame-10.png'']
    | Rejected e \<Rightarrow> False
    | Pending \<Rightarrow> False)"
proof -
  let ?w = "\<lparr>files = {''temp/u3-frame-1.png'', ''temp/u3-frame-2.png'', ''temp/u3-frame-3.png'',
                    ''temp/u3-frame-4.png'', ''temp/u3-frame-5.png'', ''temp/u3-frame-6.png'',
                    ''temp/u3-frame-7.png'', ''temp/u3-frame-8.png'', ''temp/u3-frame-9.png'',
                    ''temp/u3-frame-10.png''},
          console = [], unlinking = []\<rparr>"
  let ?vision = "\<lambda>i::nat. if i = 2 \<or> i = 5 then Inl (Error ''429'')
             else Inr \<lparr>content = Some ''a chart'', pushed_at = ''t''\<rparr>"
  let ?ps = "[''temp/u3-frame-1.png'', ''temp/u3-frame-2.png'', ''temp/u3-frame-3.png'',
          ''temp/u3-frame-4.png'', ''temp/u3-frame-5.png'', ''temp/u3-frame-6.png'',
          ''temp/u3-frame-7.png'', ''temp/u3-frame-8.png'', ''temp/u3-frame-9.png'',
          ''temp/u3-frame-10.png'']"
  have "\<forall>j r. ?vision j = Inr r \<longrightarrow> content r \<noteq> None"
    by auto
  from analyzeFrames_notes [OF this, where w = ?w and ps = ?ps] obtain va w' where
    a: "analyzeFrames ?w ?vision ?ps = (Fulfilled va, w')"
    and n: "frameAnalyses va = Some (expected_notes (files ?w) ?vision 0 ?ps)"
    by blast
  have "map frame (expected_notes (files ?w) ?vision 0 ?ps)
          = [''temp/u3-frame-1.png'', ''temp/u3-frame-2.png'', ''temp/u3-frame-4.png'',
                  ''temp/u3-frame-5.png'', ''temp/u3-frame-7.png'', ''temp/u3-frame-8.png'',
                  ''temp/u3-frame-9.png'', ''temp/u3-frame-10.png'']"
    unfolding frames_of_expected_notes by simp
  with a n show ?thesis by simp
qed

end
